theory Spec2Isabelle
  imports Complex_Main "HOL-Library.Word"
begin

section \<open>Data model\<close>

text \<open>
  The voice assistant is one React component (\<^verbatim>\<open>App\<close>) whose handlers mutate React state,
  refs, and objects of the browser (timers, audio nodes, the live session). The model is a
  shallow embedding with explicit state passing: every handler is a function from the
  application state to the application state, and everything the browser decides (the
  clocks, whether the microphone is granted, the duration of a decoded buffer) is a
  parameter of the handler.

  JavaScript numbers that hold times in seconds are modelled as \<^typ>\<open>real\<close>; timer handles,
  session handles, audio nodes and the millisecond wall clock are natural numbers.
\<close>

text \<open>\<^verbatim>\<open>types.ts\<close>: interface \<^verbatim>\<open>VoiceState\<close>.\<close>

record VoiceState =
  isListening :: bool
  isSpeaking :: bool
  isConnected :: bool
  isConnecting :: bool

text \<open>Interface \<^verbatim>\<open>TranscriptionEntry\<close>: \<^verbatim>\<open>{ id, role: 'user' | 'assistant', text }\<close>.\<close>

datatype role = User | Assistant

record TranscriptionEntry =
  entry_id :: string
  entry_role :: role
  entry_text :: string

text \<open>
  React calls \<^verbatim>\<open>App\<close> once per render, and each call has its own constants
  \<^verbatim>\<open>voiceState\<close>, \<^verbatim>\<open>hasInteracted\<close> and \<^verbatim>\<open>needsApiKey\<close>. A function made by
  \<^verbatim>\<open>useCallback\<close> reads the constants of the render that created it, not the current
  state (the comment at line 36 says why the transcription texts are kept in refs), and
  \<^verbatim>\<open>useCallback\<close> hands out the function of an earlier render until one of its
  dependencies changes.

  \<^verbatim>\<open>startSession\<close> depends on \<^verbatim>\<open>voiceState.isConnected\<close> and
  \<^verbatim>\<open>voiceState.isConnecting\<close>, the two values its guard reads (line 80). The name
  \<^verbatim>\<open>handleAutoReconnect\<close> inside \<^verbatim>\<open>startSession\<close> and inside the session callbacks that
  \<^verbatim>\<open>startSession\<close> creates (lines 210, 216, 234) is the constant of the render that
  created this \<^verbatim>\<open>startSession\<close>; since \<^verbatim>\<open>startSession\<close> is one of its dependencies, it is a
  function made in that same render: it reads \<^verbatim>\<open>hasInteracted\<close> and \<^verbatim>\<open>needsApiKey\<close> of
  that render (line 241) and its timer calls that \<^verbatim>\<open>startSession\<close> (line 242).
  \<^verbatim>\<open>stopSession\<close> and \<^verbatim>\<open>showError\<close> read refs and setters only.

  A \<open>closure\<close> is the four values that the \<^verbatim>\<open>startSession\<close> and the
  \<^verbatim>\<open>handleAutoReconnect\<close> of one render have captured.
\<close>

record closure =
  cap_isConnected :: bool
  cap_isConnecting :: bool
  cap_hasInteracted :: bool
  cap_needsApiKey :: bool

text \<open>
  The two callbacks handed to \<^verbatim>\<open>window.setTimeout\<close>:
  \<^verbatim>\<open>() => setErrorMessage(null)\<close> and \<^verbatim>\<open>() => startSession()\<close>; the second
  calls the \<^verbatim>\<open>startSession\<close> of the render that created \<^verbatim>\<open>handleAutoReconnect\<close>.
\<close>

datatype timer_callback = ClearErrorMessage | Reconnect closure

record timer =
  timer_id :: nat
  timer_callback :: timer_callback
  timer_due :: nat

text \<open>
  A live session as the browser holds it: its handle, the closure its callbacks were
  created in, and how far the connection is. \<open>Closing\<close> is an open session whose
  \<^verbatim>\<open>close()\<close> the application has called. \<open>PendingClose\<close> is a session that
  \<^verbatim>\<open>stopSession\<close> has dropped while it was still connecting: line 48 calls
  \<^verbatim>\<open>close()\<close> only once the promise of the session resolves, so the session can still
  open (and call \<^verbatim>\<open>onopen\<close>) before it is closed.
\<close>

datatype link = Pending | PendingClose | Opened | Closing | Closed

record live_session =
  session_id :: nat
  session_closure :: closure
  session_link :: link

text \<open>
  The application state: the React state of \<^verbatim>\<open>App\<close> (lines 16-27), its refs
  (lines 29-38), the closure of the \<^verbatim>\<open>startSession\<close> that the last render handed to the
  buttons (\<open>memo\<close>), and the browser objects the handlers act on.
\<close>

record app =
  voiceState :: VoiceState
  transcriptionHistory :: "TranscriptionEntry list"
  currentUserText :: string
  currentAssistantText :: string
  errorMessage :: "string option"
  hasInteracted :: bool
  needsApiKey :: bool
  sessionRef :: "nat option"
  audioContextsRef :: "nat option"
  nextStartTimeRef :: real
  sourcesRef :: "nat list"
  reconnectTimeoutRef :: "nat option"
  errorTimeoutRef :: "nat option"
  userTextRef :: string
  assistantTextRef :: string
  memo :: closure
  now :: nat
  timers :: "timer list"
  nextTimer :: nat
  sessions :: "live_session list"
  nextSession :: nat
  nextContext :: nat
  closedContexts :: "nat list"
  nextNode :: nat
  started :: "(nat \<times> real) list"
  stopped :: "nat list"

text \<open>
  A server message, reduced to what \<^verbatim>\<open>onmessage\<close> reads of its \<^verbatim>\<open>serverContent\<close>. A
  transcription object may come without its \<^verbatim>\<open>text\<close> (\<open>Some None\<close>). A \<^verbatim>\<open>modelTurn\<close> may
  come without its \<^verbatim>\<open>parts\<close> (\<open>WithoutParts\<close>); otherwise \<open>FirstPart d\<close> holds
  \<^verbatim>\<open>parts[0]?.inlineData?.data\<close>, which is \<open>None\<close> when the array is empty or the
  first part carries no inline data.
\<close>

datatype modelTurn = WithoutParts | FirstPart "string option"

record LiveServerMessage =
  outputTranscription :: "string option option"
  inputTranscription :: "string option option"
  turnComplete :: bool
  modelTurn :: "modelTurn option"
  interrupted :: bool

text \<open>
  What the output device answers while one audio payload is handled:
  \<^verbatim>\<open>outputCtx.currentTime\<close> and the \<^verbatim>\<open>duration\<close> of the buffer that
  \<^verbatim>\<open>decodeAudioData\<close> returns (\<^verbatim>\<open>utils/audio-utils\<close> is not part of the sources, so
  the duration is a parameter).
\<close>

record playback =
  currentTime :: real
  duration :: real

section \<open>Browser primitives\<close>

definition setTimeout :: "timer_callback \<Rightarrow> nat \<Rightarrow> app \<Rightarrow> nat \<times> app" where
  "setTimeout cb delay st =
     (nextTimer st,
      st\<lparr>timers := timers st @
            [\<lparr>timer_id = nextTimer st, timer_callback = cb, timer_due = now st + delay\<rparr>],
         nextTimer := Suc (nextTimer st)\<rparr>)"

definition clearTimeout :: "nat \<Rightarrow> app \<Rightarrow> app" where
  "clearTimeout h st = st\<lparr>timers := filter (\<lambda>t. timer_id t \<noteq> h) (timers st)\<rparr>"

text \<open>\<^verbatim>\<open>if (ref.current) clearTimeout(ref.current)\<close>: a handle is truthy unless null or 0.\<close>

definition clearIfSet :: "nat option \<Rightarrow> app \<Rightarrow> app" where
  "clearIfSet r st =
     (case r of
        None \<Rightarrow> st
      | Some h \<Rightarrow> if h = 0 then st else clearTimeout h st)"

text \<open>\<^verbatim>\<open>String.prototype.includes\<close>.\<close>

primrec string_includes :: "string \<Rightarrow> string \<Rightarrow> bool" where
  "string_includes [] sub = (sub = [])"
| "string_includes (c # cs) sub =
     (take (length sub) (c # cs) = sub \<or> string_includes cs sub)"

text \<open>The decimal digits of \<^verbatim>\<open>Date.now()\<close> when it is concatenated with a string.\<close>

fun decimal :: "nat \<Rightarrow> string" where
  "decimal n =
     (if n < 10 then [char_of (48 + n)]
      else decimal (n div 10) @ [char_of (48 + n mod 10)])"

declare decimal.simps [simp del]

text \<open>\<^verbatim>\<open>Array.prototype.slice(-n)\<close>: the last \<open>n\<close> elements.\<close>

definition slice_last :: "nat \<Rightarrow> 'a list \<Rightarrow> 'a list" where
  "slice_last n xs = drop (length xs - n) xs"

section \<open>Handlers\<close>

text \<open>\<^verbatim>\<open>showError\<close> (lines 40-44).\<close>

definition showError :: "string \<Rightarrow> app \<Rightarrow> app" where
  "showError msg st =
     (let st1 = st\<lparr>errorMessage := Some msg\<rparr>;
          st2 = clearIfSet (errorTimeoutRef st1) st1;
          (h, st3) = setTimeout ClearErrorMessage 8000 st2
      in st3\<lparr>errorTimeoutRef := Some h\<rparr>)"

text \<open>
  \<^verbatim>\<open>stopSession\<close> (lines 46-66). \<^verbatim>\<open>sessionRef.current.then(session => session.close())\<close>
  closes an open session at once and a connecting session when it has opened; the audio
  contexts are closed and every tracked source node is stopped.
\<close>

definition closeSession :: "nat \<Rightarrow> app \<Rightarrow> app" where
  "closeSession sid st =
     st\<lparr>sessions :=
          map (\<lambda>s. if session_id s \<noteq> sid then s
                   else if session_link s = Pending then s\<lparr>session_link := PendingClose\<rparr>
                   else if session_link s = Opened then s\<lparr>session_link := Closing\<rparr>
                   else s) (sessions st)\<rparr>"

definition stopSession :: "app \<Rightarrow> app" where
  "stopSession st =
     (let st1 = (case sessionRef st of
                   None \<Rightarrow> st
                 | Some sid \<Rightarrow> (closeSession sid st)\<lparr>sessionRef := None\<rparr>);
          st2 = st1\<lparr>voiceState :=
                   \<lparr>isListening = False, isSpeaking = False,
                    isConnected = False, isConnecting = False\<rparr>\<rparr>;
          st3 = (case audioContextsRef st2 of
                   None \<Rightarrow> st2
                 | Some c \<Rightarrow> st2\<lparr>closedContexts := closedContexts st2 @ [c],
                                 audioContextsRef := None\<rparr>)
      in st3\<lparr>stopped := stopped st3 @ sourcesRef st3, sourcesRef := []\<rparr>)"

text \<open>
  The branches of \<^verbatim>\<open>onmessage\<close> (lines 147-199), in the order the handler runs them.
  Transcription fragments (lines 149-157):
\<close>

text \<open>\<^verbatim>\<open>ref.current += text\<close>: a missing \<^verbatim>\<open>text\<close> is concatenated as the string
  \<^verbatim>\<open>undefined\<close>.\<close>

definition concat_text :: "string \<Rightarrow> string option \<Rightarrow> string" where
  "concat_text acc t = acc @ (case t of None \<Rightarrow> ''undefined'' | Some s \<Rightarrow> s)"

definition onmessage_transcription :: "LiveServerMessage \<Rightarrow> app \<Rightarrow> app" where
  "onmessage_transcription m st =
     (case outputTranscription m of
        Some t \<Rightarrow>
          st\<lparr>assistantTextRef := concat_text (assistantTextRef st) t,
             currentAssistantText := concat_text (assistantTextRef st) t\<rparr>
      | None \<Rightarrow>
          (case inputTranscription m of
             Some t \<Rightarrow>
               st\<lparr>userTextRef := concat_text (userTextRef st) t,
                  currentUserText := concat_text (userTextRef st) t\<rparr>
           | None \<Rightarrow> st))"

text \<open>Turn completion (lines 159-172).\<close>

definition turn_entries :: "nat \<Rightarrow> string \<Rightarrow> string \<Rightarrow> TranscriptionEntry list" where
  "turn_entries t uText aText =
     (if uText \<noteq> [] then
        [\<lparr>entry_id = decimal t @ ''-u'', entry_role = User, entry_text = uText\<rparr>]
      else []) @
     (if aText \<noteq> [] then
        [\<lparr>entry_id = decimal t @ ''-a'', entry_role = Assistant, entry_text = aText\<rparr>]
      else [])"

definition onmessage_turnComplete :: "app \<Rightarrow> app" where
  "onmessage_turnComplete st =
     (let uText = userTextRef st;
          aText = assistantTextRef st
      in st\<lparr>transcriptionHistory :=
               slice_last 6 (transcriptionHistory st @ turn_entries (now st) uText aText),
            userTextRef := [],
            assistantTextRef := [],
            currentUserText := [],
            currentAssistantText := []\<rparr>)"

text \<open>
  An audio payload (lines 175-191): the start time is the maximum of the cursor and the
  clock of the output device, the node is started there, and the cursor moves on by the
  duration of the buffer. \<open>started\<close> records each \<^verbatim>\<open>sourceNode.start(when)\<close>.
\<close>

definition onmessage_audio :: "playback \<Rightarrow> app \<Rightarrow> app" where
  "onmessage_audio p st =
     (let st1 = st\<lparr>voiceState := (voiceState st)\<lparr>isSpeaking := True\<rparr>\<rparr>;
          st2 = st1\<lparr>nextStartTimeRef := max (nextStartTimeRef st1) (currentTime p)\<rparr>;
          sourceNode = nextNode st2;
          st3 = st2\<lparr>nextNode := Suc sourceNode,
                   started := started st2 @ [(sourceNode, nextStartTimeRef st2)]\<rparr>;
          st4 = st3\<lparr>nextStartTimeRef := nextStartTimeRef st3 + duration p\<rparr>
      in st4\<lparr>sourcesRef :=
               (if sourceNode \<in> set (sourcesRef st4) then sourcesRef st4
                else sourcesRef st4 @ [sourceNode])\<rparr>)"

text \<open>Interruption (lines 193-198).\<close>

definition onmessage_interrupted :: "app \<Rightarrow> app" where
  "onmessage_interrupted st =
     st\<lparr>stopped := stopped st @ sourcesRef st,
        sourcesRef := [],
        nextStartTimeRef := 0,
        voiceState := (voiceState st)\<lparr>isSpeaking := False\<rparr>\<rparr>"

text \<open>
  Line 175 reads \<^verbatim>\<open>message.serverContent?.modelTurn?.parts[0]?.inlineData?.data\<close>: the
  index \<^verbatim>\<open>[0]\<close> is not guarded, so a \<^verbatim>\<open>modelTurn\<close> without \<^verbatim>\<open>parts\<close> throws a
  \<^verbatim>\<open>TypeError\<close> there. \<open>audioData\<close> is the value of the expression when it does not throw.
\<close>

definition audioData :: "LiveServerMessage \<Rightarrow> string option" where
  "audioData m =
     (case modelTurn m of
        None \<Rightarrow> None
      | Some WithoutParts \<Rightarrow> None
      | Some (FirstPart d) \<Rightarrow> d)"

text \<open>
  How a run of \<^verbatim>\<open>onmessage\<close> ends: it returns, or it throws at line 175. The handler is
  \<^verbatim>\<open>async\<close> and nobody awaits it, so the exception is lost and what the handler did
  before it stays done: \<open>after\<close> is the state a run leaves behind.
\<close>

datatype handled = Completed app | TypeError app

fun after :: "handled \<Rightarrow> app" where
  "after (Completed st) = st"
| "after (TypeError st) = st"

definition onmessage :: "LiveServerMessage \<Rightarrow> playback \<Rightarrow> app \<Rightarrow> handled" where
  "onmessage m p st =
     (let st1 = onmessage_transcription m st;
          st2 = (if turnComplete m then onmessage_turnComplete st1 else st1)
      in if modelTurn m = Some WithoutParts then TypeError st2
         else
           let st3 = (case audioData m of
                        None \<Rightarrow> st2
                      | Some d \<Rightarrow> if d = [] then st2 else onmessage_audio p st2)
           in Completed (if interrupted m then onmessage_interrupted st3 else st3))"

text \<open>The \<^verbatim>\<open>ended\<close> listener of a source node (lines 184-187).\<close>

definition onended :: "nat \<Rightarrow> app \<Rightarrow> app" where
  "onended sourceNode st =
     (let st1 = st\<lparr>sourcesRef := removeAll sourceNode (sourcesRef st)\<rparr>
      in if sourcesRef st1 = []
         then st1\<lparr>voiceState := (voiceState st1)\<lparr>isSpeaking := False\<rparr>\<rparr>
         else st1)"

text \<open>
  React renders again after each synchronous run of a handler. \<^verbatim>\<open>useCallback\<close> keeps the
  previous \<^verbatim>\<open>startSession\<close> unless one of its dependencies
  \<^verbatim>\<open>[voiceState.isConnected, voiceState.isConnecting, showError, stopSession]\<close> has changed
  (\<^verbatim>\<open>showError\<close> and \<^verbatim>\<open>stopSession\<close> never change); a new \<^verbatim>\<open>startSession\<close>, and the
  \<^verbatim>\<open>handleAutoReconnect\<close> of the same render that it calls, capture the state of that
  render.
\<close>

definition render :: "app \<Rightarrow> app" where
  "render st =
     (if cap_isConnected (memo st) = isConnected (voiceState st) \<and>
         cap_isConnecting (memo st) = isConnecting (voiceState st)
      then st
      else st\<lparr>memo :=
                \<lparr>cap_isConnected = isConnected (voiceState st),
                 cap_isConnecting = isConnecting (voiceState st),
                 cap_hasInteracted = hasInteracted st,
                 cap_needsApiKey = needsApiKey st\<rparr>\<rparr>)"

text \<open>
  \<^verbatim>\<open>handleAutoReconnect\<close> (lines 238-244); \<open>cap\<close> is the closure it was created in.
\<close>

definition handleAutoReconnect :: "closure \<Rightarrow> app \<Rightarrow> app" where
  "handleAutoReconnect cap st =
     (let st1 = clearIfSet (reconnectTimeoutRef st) st;
          st2 = stopSession st1
      in if cap_hasInteracted cap \<and> \<not> cap_needsApiKey cap then
           (let (h, st3) = setTimeout (Reconnect cap) 5000 st2
            in st3\<lparr>reconnectTimeoutRef := Some h\<rparr>)
         else st2)"

text \<open>
  What the browser answers during one run of \<^verbatim>\<open>startSession\<close>: \<open>aistudio\<close> is \<open>None\<close>
  when \<^verbatim>\<open>window.aistudio\<close> is missing and otherwise what \<^verbatim>\<open>hasSelectedApiKey()\<close>
  resolves to; \<open>apiKey\<close> is \<^verbatim>\<open>process.env.API_KEY\<close> (empty when it is not set);
  \<open>micGranted\<close> is whether \<^verbatim>\<open>getUserMedia\<close> resolves; \<open>fault\<close> is the call that throws
  into the outer \<^verbatim>\<open>catch\<close>, if any.
\<close>

datatype fault = KeyCheckRejects | AudioContextThrows | ResumeRejects | ConnectThrows

record start_env =
  aistudio :: "bool option"
  apiKey :: string
  micGranted :: bool
  fault :: "fault option"

text \<open>
  \<^verbatim>\<open>startSession\<close> (lines 79-236), run without interleaving; \<open>cap\<close> is the closure it
  was created in. \<open>failed\<close> is the outer \<^verbatim>\<open>catch\<close> block (lines 231-235). React renders
  while the function waits at an \<^verbatim>\<open>await\<close>.
\<close>

definition startSession :: "closure \<Rightarrow> start_env \<Rightarrow> app \<Rightarrow> app" where
  "startSession cap env st =
     (if cap_isConnecting cap \<or> cap_isConnected cap then st
      else
        let failed = (\<lambda>s. handleAutoReconnect cap
                             (showError ''Connection attempt failed. Retrying...'' s));
            aborted = (\<lambda>s. s\<lparr>voiceState := (voiceState s)\<lparr>isConnecting := False\<rparr>\<rparr>);
            st1 = st\<lparr>hasInteracted := True, needsApiKey := False\<rparr>
        in
        if aistudio env \<noteq> None \<and> fault env = Some KeyCheckRejects then failed (render st1)
        else if aistudio env = Some False then aborted ((render st1)\<lparr>needsApiKey := True\<rparr>)
        else
          let st2 = (if aistudio env = None then st1 else render st1) in
          if apiKey env = [] then
            aborted (showError
              ''Neural link requires a valid access key. Please configure environment.'' st2)
          else
            let st3 = st2\<lparr>voiceState := (voiceState st2)\<lparr>isConnecting := True\<rparr>\<rparr> in
            if fault env = Some AudioContextThrows then failed st3
            else if fault env = Some ResumeRejects then failed (render st3)
            else
              let st4 = (render st3)\<lparr>audioContextsRef := Some (nextContext st3),
                                     nextContext := Suc (nextContext st3)\<rparr>
              in
              if \<not> micGranted env then
                aborted (showError
                  ''Microphone access is restricted. Enable permissions for link.'' st4)
              else if fault env = Some ConnectThrows then failed st4
              else
                st4\<lparr>sessions := sessions st4 @
                       [\<lparr>session_id = nextSession st4, session_closure = cap,
                         session_link = Pending\<rparr>],
                    nextSession := Suc (nextSession st4),
                    sessionRef := Some (nextSession st4)\<rparr>)"

text \<open>\<^verbatim>\<open>handleKeySelection\<close> (lines 68-77), with the \<^verbatim>\<open>startSession\<close> of the last render.\<close>

definition handleKeySelection :: "bool \<Rightarrow> start_env \<Rightarrow> app \<Rightarrow> app" where
  "handleKeySelection openSelectKey env st =
     (if openSelectKey then startSession (memo st) env (st\<lparr>needsApiKey := False\<rparr>)
      else showError ''Key management system unavailable in this environment.'' st)"

text \<open>The session callbacks \<^verbatim>\<open>onopen\<close> (lines 123-146; the microphone pump is left out),
  \<^verbatim>\<open>onerror\<close> (lines 200-212) and \<^verbatim>\<open>onclose\<close> (lines 213-218).\<close>

definition onopen :: "app \<Rightarrow> app" where
  "onopen st =
     st\<lparr>voiceState :=
          (voiceState st)\<lparr>isConnected := True, isListening := True, isConnecting := False\<rparr>,
        errorMessage := None,
        transcriptionHistory := transcriptionHistory st @
          [\<lparr>entry_id = ''welcome-'' @ decimal (now st), entry_role = Assistant,
            entry_text =
              ''Neural link established. Welcome to Horizon OS. I am your spatial assistant.''\<rparr>]\<rparr>"

definition onerror :: "closure \<Rightarrow> string \<Rightarrow> app \<Rightarrow> app" where
  "onerror cap msg st =
     (if string_includes msg ''Requested entity was not found'' \<or>
         string_includes msg ''API_KEY_INVALID''
      then stopSession
             ((showError ''Link rejected. Key might be invalid or from unpaid project.'' st)
                \<lparr>needsApiKey := True\<rparr>)
      else handleAutoReconnect cap
             (showError ''Neural bridge sync failure. Attempting recalibration...'' st))"

definition onclose :: "closure \<Rightarrow> bool \<Rightarrow> app \<Rightarrow> app" where
  "onclose cap wasClean st =
     (if \<not> wasClean
      then handleAutoReconnect cap (showError ''Spatial Link unexpectedly terminated.'' st)
      else st)"

section \<open>Events\<close>

text \<open>
  What can happen to the mounted component: a click on one of the three buttons (each is
  rendered only in the states the JSX of lines 296-328 says), time passing, a timer coming
  due, a callback of a live session, and the end of a source node. A callback of a session
  runs in the closure the session was created in. Each event is handled without
  interleaving, and React renders after it. Unmounting the component (the cleanup of
  lines 246-252) ends the model and is not an event.
\<close>

datatype event =
    ClickStart start_env
  | ClickStop
  | ClickReauthorize bool start_env
  | Tick nat
  | TimerFires nat start_env
  | SessionOpens nat
  | SessionMessage nat LiveServerMessage playback
  | SessionError nat string
  | SessionCloses nat bool
  | SourceEnded nat

definition setLink :: "nat \<Rightarrow> link \<Rightarrow> app \<Rightarrow> app" where
  "setLink sid l st =
     st\<lparr>sessions :=
          map (\<lambda>s. if session_id s = sid then s\<lparr>session_link := l\<rparr> else s) (sessions st)\<rparr>"

fun dispatch :: "event \<Rightarrow> app \<Rightarrow> app" where
  "dispatch (ClickStart env) st =
     (if \<not> isConnected (voiceState st) \<and> \<not> isConnecting (voiceState st)
      then startSession (memo st) env st else st)"
| "dispatch ClickStop st =
     (if isConnected (voiceState st) \<and> \<not> isConnecting (voiceState st)
      then stopSession st else st)"
| "dispatch (ClickReauthorize openSelectKey env) st =
     (if needsApiKey st then handleKeySelection openSelectKey env st else st)"
| "dispatch (Tick d) st = st\<lparr>now := now st + d\<rparr>"
| "dispatch (TimerFires h env) st =
     (case find (\<lambda>t. timer_id t = h) (timers st) of
        None \<Rightarrow> st
      | Some t \<Rightarrow>
          if now st < timer_due t then st
          else
            (case timer_callback t of
               ClearErrorMessage \<Rightarrow> (clearTimeout h st)\<lparr>errorMessage := None\<rparr>
             | Reconnect cap \<Rightarrow> startSession cap env (clearTimeout h st)))"
| "dispatch (SessionOpens sid) st =
     (case find (\<lambda>s. session_id s = sid) (sessions st) of
        None \<Rightarrow> st
      | Some s \<Rightarrow>
          if session_link s = Pending then onopen (setLink sid Opened st)
          else if session_link s = PendingClose then onopen (setLink sid Closing st)
          else st)"
| "dispatch (SessionMessage sid m p) st =
     (case find (\<lambda>s. session_id s = sid) (sessions st) of
        None \<Rightarrow> st
      | Some s \<Rightarrow> if session_link s = Opened then after (onmessage m p st) else st)"
| "dispatch (SessionError sid msg) st =
     (case find (\<lambda>s. session_id s = sid) (sessions st) of
        None \<Rightarrow> st
      | Some s \<Rightarrow>
          if session_link s = Pending \<or> session_link s = PendingClose \<or>
             session_link s = Opened
          then onerror (session_closure s) msg st else st)"
| "dispatch (SessionCloses sid wasClean) st =
     (case find (\<lambda>s. session_id s = sid) (sessions st) of
        None \<Rightarrow> st
      | Some s \<Rightarrow>
          if session_link s = Closed then st
          else onclose (session_closure s) wasClean (setLink sid Closed st))"
| "dispatch (SourceEnded sourceNode) st =
     (if sourceNode \<in> set (map fst (started st)) then onended sourceNode st else st)"

definition handle :: "event \<Rightarrow> app \<Rightarrow> app" where
  "handle e st = render (dispatch e st)"

fun exec :: "event list \<Rightarrow> app \<Rightarrow> app" where
  "exec [] st = st"
| "exec (e # es) st = exec es (handle e st)"

text \<open>The component as mounted (lines 16-38): the first render captures the initial state.\<close>

definition initial :: app where
  "initial =
     \<lparr>voiceState = \<lparr>isListening = False, isSpeaking = False,
                    isConnected = False, isConnecting = False\<rparr>,
      transcriptionHistory = [],
      currentUserText = [],
      currentAssistantText = [],
      errorMessage = None,
      hasInteracted = False,
      needsApiKey = False,
      sessionRef = None,
      audioContextsRef = None,
      nextStartTimeRef = 0,
      sourcesRef = [],
      reconnectTimeoutRef = None,
      errorTimeoutRef = None,
      userTextRef = [],
      assistantTextRef = [],
      memo = \<lparr>cap_isConnected = False, cap_isConnecting = False,
              cap_hasInteracted = False, cap_needsApiKey = False\<rparr>,
      now = 0,
      timers = [],
      nextTimer = 1,
      sessions = [],
      nextSession = 0,
      nextContext = 0,
      closedContexts = [],
      nextNode = 0,
      started = [],
      stopped = []\<rparr>"

section \<open>Sample codec\<close>

text \<open>
  The module \<^verbatim>\<open>utils/audio-utils\<close> (\<^verbatim>\<open>createPcmBlob\<close>, \<^verbatim>\<open>decode\<close>, \<^verbatim>\<open>decodeAudioData\<close>) is
  imported by the component but is not among the sources; the codec is modelled from
  section 4.1 of the specification. A byte is a natural number below 256, a 16-bit
  integer is a \<^typ>\<open>16 word\<close>, and samples are reals.
\<close>

text \<open>Modelled from the spec: the missing \<^verbatim>\<open>createPcmBlob\<close> writes each sample as a
  \<^emph>\<open>16-bit signed little-endian integer\<close>: two bytes, the low byte first.\<close>

definition le_bytes :: "16 word \<Rightarrow> nat list" where
  "le_bytes w = [unat w mod 256, unat w div 256]"

text \<open>Modelled from the spec: the missing \<^verbatim>\<open>decodeAudioData\<close> \<^emph>\<open>reinterprets bytes as 16-bit
  little-endian signed integers\<close>; a trailing odd byte is not a frame.\<close>

fun of_le_bytes :: "nat list \<Rightarrow> 16 word list" where
  "of_le_bytes (lo # hi # bs) = of_nat (lo + 256 * hi) # of_le_bytes bs"
| "of_le_bytes bs = []"

text \<open>Modelled from the spec: the alphabet of the \<^emph>\<open>base64 envelope\<close> of the missing
  encoder (RFC 4648).\<close>

definition base64_alphabet :: string where
  "base64_alphabet = ''ABCDEFGHIJKLMNOPQRSTUVWXYZabcdefghijklmnopqrstuvwxyz0123456789+/''"

text \<open>Modelled from the spec: the base64 character of a six-bit value (missing encoder).\<close>

definition base64_char :: "nat \<Rightarrow> char" where
  "base64_char i = base64_alphabet ! i"

text \<open>Modelled from the spec: the position of a character in the alphabet, for the
  missing \<^verbatim>\<open>decode\<close>.\<close>

fun index_of :: "'a \<Rightarrow> 'a list \<Rightarrow> nat option" where
  "index_of x [] = None"
| "index_of x (y # ys) = (if x = y then Some 0 else map_option Suc (index_of x ys))"

text \<open>Modelled from the spec: the six-bit value of a base64 character (missing
  \<^verbatim>\<open>decode\<close>); \<open>None\<close> for a character outside the alphabet.\<close>

definition base64_index :: "char \<Rightarrow> nat option" where
  "base64_index c = index_of c base64_alphabet"

text \<open>Modelled from the spec: the missing encoder \<^emph>\<open>encodes the byte sequence into the
  textual transport envelope (base64)\<close>: three bytes become four characters of six bits
  each, and a last group of one or two bytes is padded.\<close>

fun encode_base64 :: "nat list \<Rightarrow> string" where
  "encode_base64 (a # b # c # bs) =
     [base64_char (a div 4), base64_char ((a mod 4) * 16 + b div 16),
      base64_char ((b mod 16) * 4 + c div 64), base64_char (c mod 64)] @ encode_base64 bs"
| "encode_base64 [a, b] =
     [base64_char (a div 4), base64_char ((a mod 4) * 16 + b div 16),
      base64_char ((b mod 16) * 4), CHR ''='']"
| "encode_base64 [a] =
     [base64_char (a div 4), base64_char ((a mod 4) * 16), CHR ''='', CHR ''='']"
| "encode_base64 [] = []"

text \<open>Modelled from the spec: the missing \<^verbatim>\<open>decode\<close> \<^emph>\<open>reverses the textual envelope to
  bytes\<close>; text that is not base64 has no decoding (\<open>None\<close>).\<close>

fun decode_base64 :: "string \<Rightarrow> nat list option" where
  "decode_base64 [] = Some []"
| "decode_base64 (c1 # c2 # c3 # c4 # cs) =
     (case (base64_index c1, base64_index c2) of
        (Some s1, Some s2) \<Rightarrow>
          if c3 = CHR ''='' \<and> c4 = CHR ''='' \<and> cs = [] then Some [s1 * 4 + s2 div 16]
          else
            (case base64_index c3 of
               None \<Rightarrow> None
             | Some s3 \<Rightarrow>
                 if c4 = CHR ''='' \<and> cs = []
                 then Some [s1 * 4 + s2 div 16, (s2 mod 16) * 16 + s3 div 4]
                 else
                   (case base64_index c4 of
                      None \<Rightarrow> None
                    | Some s4 \<Rightarrow>
                        map_option
                          (\<lambda>bs. [s1 * 4 + s2 div 16, (s2 mod 16) * 16 + s3 div 4,
                                 (s3 mod 4) * 64 + s4] @ bs)
                          (decode_base64 cs)))
      | _ \<Rightarrow> None)"
| "decode_base64 cs = None"

text \<open>Modelled from the spec: the \<^emph>\<open>transportBlob\<close> of the missing \<^verbatim>\<open>createPcmBlob\<close>,
  the text \<^emph>\<open>tagged with the input sample rate\<close> (the content of its label is not
  specified).\<close>

record transportBlob =
  blob_data :: string
  blob_sampleRate :: nat

text \<open>
  Modelled from the spec: \<^verbatim>\<open>encodeInputFrame\<close> of 4.1, the missing \<^verbatim>\<open>createPcmBlob\<close>. The
  specification names the 16-bit quantization but neither its scale nor its rounding, so
  the conversion of one sample to a 16-bit integer (\<open>toInt16\<close>) is a parameter. The
  capture rate is 16 kHz.
\<close>

definition encodeInputFrame :: "(real \<Rightarrow> 16 word) \<Rightarrow> real list \<Rightarrow> transportBlob" where
  "encodeInputFrame toInt16 samples =
     \<lparr>blob_data = encode_base64 (concat (map (le_bytes \<circ> toInt16) samples)),
      blob_sampleRate = 16000\<rparr>"

text \<open>
  Modelled from the spec: \<^verbatim>\<open>decodeOutputPayload\<close> of 4.1, the missing \<^verbatim>\<open>decode\<close> followed
  by \<^verbatim>\<open>decodeAudioData\<close>. The normalization of a 16-bit integer to \<open>[-1, 1]\<close> (\<open>toFloat\<close>)
  is a parameter. The decoded buffer is its sequence of samples (the system is mono; the
  audio context, the sample rate and the channel count only dress the buffer); an empty
  payload decodes to the empty buffer.
\<close>

definition decodeOutputPayload :: "(16 word \<Rightarrow> real) \<Rightarrow> string \<Rightarrow> real list option" where
  "decodeOutputPayload toFloat payload =
     map_option (map toFloat \<circ> of_le_bytes) (decode_base64 payload)"

text \<open>Modelled from the spec: one conversion of a sample \<^emph>\<open>to a 16-bit signed integer\<close>
  that fits the words of the specification, as a concrete instance of the missing one:
  scale by \<open>2\<^sup>1\<^sup>5\<close>, round down, saturate to the 16-bit range.\<close>

definition float_to_pcm16 :: "real \<Rightarrow> 16 word" where
  "float_to_pcm16 x = word_of_int (max (- 32768) (min 32767 \<lfloor>x * 32768\<rfloor>))"

text \<open>Modelled from the spec: the matching normalization \<^emph>\<open>to floating range [-1,1]\<close>:
  the signed value divided by \<open>2\<^sup>1\<^sup>5\<close>.\<close>

definition pcm16_to_float :: "16 word \<Rightarrow> real" where
  "pcm16_to_float w = real_of_int (sint w) / 32768"

section \<open>Notions the properties are stated with\<close>

text \<open>The reconnections that are scheduled and have not fired or been cancelled.\<close>

fun is_reconnect :: "timer_callback \<Rightarrow> bool" where
  "is_reconnect (Reconnect cap) = True"
| "is_reconnect ClearErrorMessage = False"

definition pending_reconnects :: "app \<Rightarrow> timer list" where
  "pending_reconnects st = filter (\<lambda>t. is_reconnect (timer_callback t)) (timers st)"

text \<open>
  The invariant behind the debounce: at most one reconnection is pending, and
  \<^verbatim>\<open>reconnectTimeoutRef\<close> holds its (truthy) handle.
\<close>

definition debounced :: "app \<Rightarrow> bool" where
  "debounced st \<longleftrightarrow>
     0 < nextTimer st \<and>
     length (pending_reconnects st) \<le> 1 \<and>
     (\<forall>t \<in> set (pending_reconnects st).
        reconnectTimeoutRef st = Some (timer_id t) \<and> 0 < timer_id t)"

text \<open>
  The scheduling rule in the words of the specification: a segment starts at the maximum
  of the device clock and the cursor, and the cursor is that start plus the duration. A
  segment is the pair of the device clock at its enqueue and its duration.
\<close>

fun spec_starts :: "real \<Rightarrow> (real \<times> real) list \<Rightarrow> real list" where
  "spec_starts cursor [] = []"
| "spec_starts cursor ((clock, d) # segs) =
     max clock cursor # spec_starts (max clock cursor + d) segs"

text \<open>The audio branch of \<^verbatim>\<open>onmessage\<close> run on a sequence of segments, and the start
  times it hands to \<^verbatim>\<open>sourceNode.start\<close> for them.\<close>

fun enqueue_all :: "(real \<times> real) list \<Rightarrow> app \<Rightarrow> app" where
  "enqueue_all [] st = st"
| "enqueue_all ((clock, d) # segs) st =
     enqueue_all segs (onmessage_audio \<lparr>currentTime = clock, duration = d\<rparr> st)"

definition scheduled_starts :: "(real \<times> real) list \<Rightarrow> app \<Rightarrow> real list" where
  "scheduled_starts segs st =
     map snd (drop (length (started st)) (started (enqueue_all segs st)))"

fun is_message :: "event \<Rightarrow> bool" where
  "is_message (SessionMessage sid m p) = True"
| "is_message e = False"

text \<open>
  The path of \<^verbatim>\<open>startSession\<close> that reaches \<^verbatim>\<open>getUserMedia\<close> (line 111): the guard of
  line 80 passes, a key is selected and configured, and the audio contexts are up.
\<close>

definition requests_microphone :: "closure \<Rightarrow> start_env \<Rightarrow> bool" where
  "requests_microphone cap env \<longleftrightarrow>
     \<not> cap_isConnecting cap \<and> \<not> cap_isConnected cap \<and>
     (aistudio env = None \<or> aistudio env = Some True \<and> fault env \<noteq> Some KeyCheckRejects) \<and>
     apiKey env \<noteq> [] \<and>
     fault env \<noteq> Some AudioContextThrows \<and> fault env \<noteq> Some ResumeRejects"

text \<open>
  Concrete inputs for the scenarios below: a browser that grants everything, a fragment
  of user speech, and the transcription of a reply that ends the turn.
\<close>

definition granted :: start_env where
  "granted = \<lparr>aistudio = None, apiKey = ''key'', micGranted = True, fault = None\<rparr>"

definition said :: "string \<Rightarrow> LiveServerMessage" where
  "said t =
     \<lparr>outputTranscription = None, inputTranscription = Some (Some t), turnComplete = False,
      modelTurn = None, interrupted = False\<rparr>"

definition replied :: "string \<Rightarrow> LiveServerMessage" where
  "replied t =
     \<lparr>outputTranscription = Some (Some t), inputTranscription = None, turnComplete = True,
      modelTurn = None, interrupted = False\<rparr>"

definition audio :: LiveServerMessage where
  "audio =
     \<lparr>outputTranscription = None, inputTranscription = None, turnComplete = False,
      modelTurn = Some (FirstPart (Some ''AAAA'')), interrupted = False\<rparr>"


section \<open>Frame lemmas\<close>

text \<open>Evaluating a scenario unfolds every handler.\<close>

lemmas run_defs =
  handle_def render_def startSession_def handleKeySelection_def handleAutoReconnect_def
  stopSession_def closeSession_def setLink_def showError_def clearIfSet_def clearTimeout_def
  setTimeout_def onopen_def onerror_def onclose_def onended_def onmessage_def
  onmessage_transcription_def onmessage_turnComplete_def onmessage_audio_def
  onmessage_interrupted_def concat_text_def audioData_def turn_entries_def slice_last_def
  decimal.simps
  pending_reconnects_def initial_def granted_def said_def replied_def audio_def Let_def

text \<open>Only a server message moves the playback cursor.\<close>

lemma cursor_clearIfSet [simp]: "nextStartTimeRef (clearIfSet r st) = nextStartTimeRef st"
  by (simp add: clearIfSet_def clearTimeout_def split: option.split)

lemma cursor_showError [simp]: "nextStartTimeRef (showError msg st) = nextStartTimeRef st"
  by (simp add: showError_def setTimeout_def Let_def)

lemma cursor_stopSession [simp]: "nextStartTimeRef (stopSession st) = nextStartTimeRef st"
  by (simp add: stopSession_def closeSession_def Let_def split: option.split)

lemma cursor_render [simp]: "nextStartTimeRef (render st) = nextStartTimeRef st"
  by (simp add: render_def)

lemma cursor_handleAutoReconnect [simp]:
  "nextStartTimeRef (handleAutoReconnect cap st) = nextStartTimeRef st"
  by (simp add: handleAutoReconnect_def setTimeout_def Let_def)

lemma cursor_startSession [simp]:
  "nextStartTimeRef (startSession cap env st) = nextStartTimeRef st"
  by (simp add: startSession_def Let_def)

lemma cursor_handleKeySelection [simp]:
  "nextStartTimeRef (handleKeySelection k env st) = nextStartTimeRef st"
  by (simp add: handleKeySelection_def)

lemma cursor_onopen [simp]: "nextStartTimeRef (onopen st) = nextStartTimeRef st"
  by (simp add: onopen_def)

lemma cursor_onerror [simp]: "nextStartTimeRef (onerror cap msg st) = nextStartTimeRef st"
  by (simp add: onerror_def)

lemma cursor_onclose [simp]: "nextStartTimeRef (onclose cap c st) = nextStartTimeRef st"
  by (simp add: onclose_def)

lemma cursor_onended [simp]: "nextStartTimeRef (onended n st) = nextStartTimeRef st"
  by (simp add: onended_def Let_def)

lemma cursor_setLink [simp]: "nextStartTimeRef (setLink sid l st) = nextStartTimeRef st"
  by (simp add: setLink_def)

lemma cursor_clearTimeout [simp]: "nextStartTimeRef (clearTimeout h st) = nextStartTimeRef st"
  by (simp add: clearTimeout_def)

lemma cursor_dispatch:
  "\<not> is_message e \<Longrightarrow> nextStartTimeRef (dispatch e st) = nextStartTimeRef st"
  by (cases e) (simp_all split: option.split timer_callback.split)

lemma cursor_handle:
  "\<not> is_message e \<Longrightarrow> nextStartTimeRef (handle e st) = nextStartTimeRef st"
  by (simp add: handle_def cursor_dispatch)

lemma cursor_exec:
  "\<forall>e \<in> set es. \<not> is_message e \<Longrightarrow> nextStartTimeRef (exec es st) = nextStartTimeRef st"
  by (induction es arbitrary: st) (simp_all add: cursor_handle)

lemma cursor_transcription [simp]:
  "nextStartTimeRef (onmessage_transcription m st) = nextStartTimeRef st"
  by (simp add: onmessage_transcription_def split: option.split)

lemma cursor_turnComplete [simp]:
  "nextStartTimeRef (onmessage_turnComplete st) = nextStartTimeRef st"
  by (simp add: onmessage_turnComplete_def Let_def)

section \<open>Playback scheduling\<close>

lemma audio_started:
  "started (onmessage_audio p st) =
     started st @ [(nextNode st, max (nextStartTimeRef st) (currentTime p))]"
  by (simp add: onmessage_audio_def Let_def)

lemma audio_cursor:
  "nextStartTimeRef (onmessage_audio p st) =
     max (nextStartTimeRef st) (currentTime p) + duration p"
  by (simp add: onmessage_audio_def Let_def)

lemma enqueue_all_started:
  "\<exists>new. started (enqueue_all segs st) = started st @ new \<and>
         map snd new = spec_starts (nextStartTimeRef st) segs"
proof (induction segs arbitrary: st)
  case Nil
  then show ?case by simp
next
  case (Cons seg segs)
  obtain clock d where seg: "seg = (clock, d)" by (cases seg)
  let ?st1 = "onmessage_audio \<lparr>currentTime = clock, duration = d\<rparr> st"
  from Cons.IH [of ?st1] obtain new where
    new: "started (enqueue_all segs ?st1) = started ?st1 @ new"
         "map snd new = spec_starts (nextStartTimeRef ?st1) segs"
    by blast
  have "started (enqueue_all (seg # segs) st) =
          started st @ ((nextNode st, max (nextStartTimeRef st) clock) # new)"
    using new(1) by (simp add: seg audio_started)
  moreover have "map snd ((nextNode st, max (nextStartTimeRef st) clock) # new) =
          spec_starts (nextStartTimeRef st) (seg # segs)"
    using new(2) by (simp add: seg audio_cursor max.commute)
  ultimately show ?case by blast
qed

lemma scheduled_starts_spec:
  "scheduled_starts segs st = spec_starts (nextStartTimeRef st) segs"
proof -
  obtain new where "started (enqueue_all segs st) = started st @ new"
    and "map snd new = spec_starts (nextStartTimeRef st) segs"
    using enqueue_all_started by blast
  then show ?thesis by (simp add: scheduled_starts_def)
qed

lemma spec_starts_lower:
  "x \<in> set (spec_starts c segs) \<Longrightarrow> \<forall>seg \<in> set segs. 0 \<le> snd seg \<Longrightarrow> c \<le> x"
proof (induction c segs rule: spec_starts.induct)
  case (1 cursor)
  then show ?case by simp
next
  case (2 cursor clock d segs)
  then show ?case by (fastforce simp: max_def split: if_splits)
qed

lemma spec_starts_sorted:
  "\<forall>seg \<in> set segs. 0 \<le> snd seg \<Longrightarrow> sorted (spec_starts c segs)"
proof (induction c segs rule: spec_starts.induct)
  case (1 cursor)
  then show ?case by simp
next
  case (2 cursor clock d segs)
  have d: "0 \<le> d" and rest: "\<forall>seg \<in> set segs. 0 \<le> snd seg"
    using 2(2) by simp_all
  have "max clock cursor \<le> x" if "x \<in> set (spec_starts (max clock cursor + d) segs)" for x
  proof -
    have "max clock cursor + d \<le> x" using spec_starts_lower [OF that rest] .
    with d show ?thesis by linarith
  qed
  moreover have "sorted (spec_starts (max clock cursor + d) segs)"
    using 2(1) rest .
  ultimately show ?case
    unfolding spec_starts.simps sorted_wrt.simps by blast
qed

lemma spec_starts_spacing:
  "Suc i < length segs \<Longrightarrow>
     spec_starts c segs ! i + snd (segs ! i) \<le> spec_starts c segs ! Suc i"
proof (induction c segs arbitrary: i rule: spec_starts.induct)
  case (1 cursor)
  then show ?case by simp
next
  case (2 cursor clock d segs)
  show ?case
  proof (cases i)
    case 0
    with 2(2) obtain clock' d' rest where "segs = (clock', d') # rest"
      by (cases segs) auto
    with 0 show ?thesis by simp
  next
    case (Suc j)
    with 2 show ?thesis by simp
  qed
qed

text \<open>
  C1. For every sequence of playback segments enqueued one after the other, given by the
  device clock at each enqueue and the (non-negative) duration of each buffer: a segment
  is started at the maximum of the device clock and the cursor, and the cursor is then
  that start plus the duration; the start times are those of the specification's rule,
  they are non-decreasing, and each segment starts no earlier than its predecessor's
  start plus its predecessor's duration. (An interruption between two enqueues stops
  every segment enqueued so far and restarts the cursor at zero, see C5.)
\<close>

theorem playback_never_overlaps:
  assumes "\<forall>seg \<in> set segs. 0 \<le> snd seg"
  shows "started (onmessage_audio p st) =
           started st @ [(nextNode st, max (currentTime p) (nextStartTimeRef st))] \<and>
         nextStartTimeRef (onmessage_audio p st) =
           max (currentTime p) (nextStartTimeRef st) + duration p \<and>
         scheduled_starts segs st = spec_starts (nextStartTimeRef st) segs \<and>
         sorted (scheduled_starts segs st) \<and>
         (\<forall>i. Suc i < length segs \<longrightarrow>
            scheduled_starts segs st ! i + snd (segs ! i) \<le> scheduled_starts segs st ! Suc i)"
  using assms
  by (simp add: audio_started audio_cursor scheduled_starts_spec spec_starts_sorted
      spec_starts_spacing max.commute)

text \<open>Three segments of half a second, half a second and two seconds, the second one
  arriving while the first still plays: it starts when the first ends.\<close>

theorem playback_never_overlaps_witness:
  "scheduled_starts [(0, 1/2), (1/10, 1/2), (3, 2)] initial = [0, 1/2, 3]"
proof -
  have "\<forall>seg \<in> set [(0::real, 1/2::real), (1/10, 1/2), (3, 2)]. 0 \<le> snd seg" by simp
  from playback_never_overlaps [OF this, of "\<lparr>currentTime = 0, duration = 0\<rparr>" initial]
  have "scheduled_starts [(0, 1/2), (1/10, 1/2), (3, 2)] initial =
          spec_starts (nextStartTimeRef initial) [(0, 1/2), (1/10, 1/2), (3, 2)]"
    by blast
  moreover have "nextStartTimeRef initial = 0" by (simp add: initial_def)
  ultimately show ?thesis by simp
qed

text \<open>
  C5. After the interruption branch has run, whatever the state before: every source
  node that was tracked has been stopped, no node is tracked, the cursor is zero and
  \<^verbatim>\<open>isSpeaking\<close> is false. With no tracked node it stops nothing and changes nothing but
  the cursor and \<^verbatim>\<open>isSpeaking\<close>; run twice in a row it gives the state of one run. The
  same holds at the end of every message that carries the interruption flag and reaches
  the branch, that is, whose \<^verbatim>\<open>modelTurn\<close>, if any, has its \<^verbatim>\<open>parts\<close>.
\<close>

theorem interruption_flushes_playback:
  "sourcesRef (onmessage_interrupted st) = [] \<and>
   stopped (onmessage_interrupted st) = stopped st @ sourcesRef st \<and>
   nextStartTimeRef (onmessage_interrupted st) = 0 \<and>
   \<not> isSpeaking (voiceState (onmessage_interrupted st)) \<and>
   (sourcesRef st = [] \<longrightarrow>
      onmessage_interrupted st =
        st\<lparr>nextStartTimeRef := 0, voiceState := (voiceState st)\<lparr>isSpeaking := False\<rparr>\<rparr>) \<and>
   onmessage_interrupted (onmessage_interrupted st) = onmessage_interrupted st \<and>
   (interrupted m \<and> modelTurn m \<noteq> Some WithoutParts \<longrightarrow>
      sourcesRef (after (onmessage m p st)) = [] \<and>
      nextStartTimeRef (after (onmessage m p st)) = 0 \<and>
      \<not> isSpeaking (voiceState (after (onmessage m p st))))"
  by (simp add: onmessage_interrupted_def onmessage_def Let_def)

text \<open>
  Two segments are playing when the interruption arrives. A segment has played to its
  end (the cursor is 1, nothing is tracked) when the interruption arrives: nothing is
  stopped and the cursor is reset. A message that carries a segment and the flag.
\<close>

theorem interruption_flushes_playback_witness:
  "stopped (onmessage_interrupted (enqueue_all [(0, 1), (0, 1)] initial)) = [0, 1] \<and>
   sourcesRef (onmessage_interrupted (enqueue_all [(0, 1), (0, 1)] initial)) = [] \<and>
   nextStartTimeRef (onended 0 (enqueue_all [(0, 1)] initial)) = 1 \<and>
   nextStartTimeRef (onmessage_interrupted (onended 0 (enqueue_all [(0, 1)] initial))) = 0 \<and>
   stopped (onmessage_interrupted (onended 0 (enqueue_all [(0, 1)] initial))) = [] \<and>
   sourcesRef (after (onmessage (audio\<lparr>interrupted := True\<rparr>)
                        \<lparr>currentTime = 0, duration = 1\<rparr> initial)) = []"
proof -
  let ?played = "onended 0 (enqueue_all [(0, 1)] initial)"
  let ?m = "audio\<lparr>interrupted := True\<rparr>"
  have a: "sourcesRef ?played = []" "nextStartTimeRef ?played = 1" "stopped ?played = []"
    by (simp_all add: onended_def onmessage_audio_def Let_def initial_def)
  have b: "interrupted ?m \<and> modelTurn ?m \<noteq> Some WithoutParts"
    by (simp add: audio_def)
  have c: "sourcesRef (enqueue_all [(0, 1), (0, 1)] initial) = [0, 1]"
    and d: "stopped (enqueue_all [(0, 1), (0, 1)] initial) = []"
    by (simp_all add: onmessage_audio_def Let_def initial_def)
  show ?thesis
    using interruption_flushes_playback [of "enqueue_all [(0, 1), (0, 1)] initial"]
      interruption_flushes_playback [of ?played]
      interruption_flushes_playback [of initial ?m "\<lparr>currentTime = 0, duration = 1\<rparr>"]
      a b c d
    by simp
qed

text \<open>
  A message whose \<^verbatim>\<open>modelTurn\<close> has no \<^verbatim>\<open>parts\<close> throws at line 175, after the
  transcription and turn-completion branches and before the audio and interruption
  branches: the playback state is left as it was, whatever flags the message carries.
\<close>

lemma modelTurn_without_parts_throws:
  assumes "modelTurn m = Some WithoutParts"
  shows "onmessage m p st =
           TypeError (if turnComplete m
                      then onmessage_turnComplete (onmessage_transcription m st)
                      else onmessage_transcription m st) \<and>
         sourcesRef (after (onmessage m p st)) = sourcesRef st \<and>
         stopped (after (onmessage m p st)) = stopped st \<and>
         nextStartTimeRef (after (onmessage m p st)) = nextStartTimeRef st \<and>
         isSpeaking (voiceState (after (onmessage m p st))) = isSpeaking (voiceState st)"
  using assms
  by (simp add: onmessage_def onmessage_transcription_def onmessage_turnComplete_def Let_def
      split: option.split)


section \<open>Transcript\<close>

text \<open>
  C6. On turn completion the history becomes the last six entries of: the history, then
  a user entry if the user accumulator is non-empty, then an assistant entry if the
  assistant accumulator is non-empty. Both accumulators and both live-preview texts are
  cleared. With both accumulators empty nothing is appended, and no entry with an empty
  text ever enters the history this way.
\<close>

theorem turn_completion_appends_user_then_assistant:
  "transcriptionHistory (onmessage_turnComplete st) =
     slice_last 6 (transcriptionHistory st @
       (if userTextRef st \<noteq> [] then
          [\<lparr>entry_id = decimal (now st) @ ''-u'', entry_role = User,
            entry_text = userTextRef st\<rparr>]
        else []) @
       (if assistantTextRef st \<noteq> [] then
          [\<lparr>entry_id = decimal (now st) @ ''-a'', entry_role = Assistant,
            entry_text = assistantTextRef st\<rparr>]
        else [])) \<and>
   userTextRef (onmessage_turnComplete st) = [] \<and>
   assistantTextRef (onmessage_turnComplete st) = [] \<and>
   currentUserText (onmessage_turnComplete st) = [] \<and>
   currentAssistantText (onmessage_turnComplete st) = [] \<and>
   (userTextRef st = [] \<and> assistantTextRef st = [] \<longrightarrow>
      transcriptionHistory (onmessage_turnComplete st) =
        slice_last 6 (transcriptionHistory st)) \<and>
   (userTextRef st = [] \<and> assistantTextRef st = [] \<and> length (transcriptionHistory st) \<le> 6 \<longrightarrow>
      transcriptionHistory (onmessage_turnComplete st) = transcriptionHistory st) \<and>
   ((\<forall>e \<in> set (transcriptionHistory st). entry_text e \<noteq> []) \<longrightarrow>
      (\<forall>e \<in> set (transcriptionHistory (onmessage_turnComplete st)). entry_text e \<noteq> []))"
proof -
  have "\<forall>e \<in> set (transcriptionHistory (onmessage_turnComplete st)). entry_text e \<noteq> []"
    if "\<forall>e \<in> set (transcriptionHistory st). entry_text e \<noteq> []"
  proof
    fix e
    assume "e \<in> set (transcriptionHistory (onmessage_turnComplete st))"
    then have "e \<in> set (transcriptionHistory st @
        turn_entries (now st) (userTextRef st) (assistantTextRef st))"
      by (auto simp: onmessage_turnComplete_def slice_last_def Let_def dest: in_set_dropD)
    with that show "entry_text e \<noteq> []"
      by (auto simp: turn_entries_def split: if_splits)
  qed
  then show ?thesis
    by (simp add: onmessage_turnComplete_def turn_entries_def slice_last_def Let_def)
qed

text \<open>A turn with both sides, after the welcome entry; and a turn completion with
  nothing accumulated.\<close>

theorem turn_completion_appends_user_then_assistant_witness:
  "map (\<lambda>e. (entry_role e, entry_text e))
     (transcriptionHistory
        (onmessage_turnComplete
           ((onopen initial)\<lparr>userTextRef := ''hello'', assistantTextRef := ''hi''\<rparr>))) =
     [(Assistant,
       ''Neural link established. Welcome to Horizon OS. I am your spatial assistant.''),
      (User, ''hello''), (Assistant, ''hi'')] \<and>
   transcriptionHistory (onmessage_turnComplete (onopen initial)) =
     transcriptionHistory (onopen initial)"
  using turn_completion_appends_user_then_assistant
          [of "(onopen initial)\<lparr>userTextRef := ''hello'', assistantTextRef := ''hi''\<rparr>"]
        turn_completion_appends_user_then_assistant [of "onopen initial"]
  by (simp add: onopen_def initial_def slice_last_def)

lemma turn_completion_bounds_history:
  "length (transcriptionHistory (onmessage_turnComplete st)) \<le> 6"
  by (simp add: onmessage_turnComplete_def slice_last_def Let_def)

lemma welcome_grows_history:
  "length (transcriptionHistory (onopen st)) = Suc (length (transcriptionHistory st))"
  by (simp add: onopen_def)

text \<open>
  C3. The history is cut to its last six entries when a turn completes, and only then:
  the welcome entry of \<^verbatim>\<open>onopen\<close> is appended without the cut. After three turns of a
  first session the history holds six entries; the user stops, starts again, and when the
  second session opens the history holds seven.
\<close>

theorem welcome_entry_escapes_truncation:
  "length (transcriptionHistory (onmessage_turnComplete st)) \<le> 6 \<and>
   length (transcriptionHistory (onopen st)) = Suc (length (transcriptionHistory st)) \<and>
   map entry_text (transcriptionHistory (exec
     [ClickStart granted, SessionOpens 0,
      SessionMessage 0 (said ''one'') \<lparr>currentTime = 0, duration = 0\<rparr>,
      SessionMessage 0 (replied ''two'') \<lparr>currentTime = 0, duration = 0\<rparr>,
      SessionMessage 0 (said ''three'') \<lparr>currentTime = 0, duration = 0\<rparr>,
      SessionMessage 0 (replied ''four'') \<lparr>currentTime = 0, duration = 0\<rparr>,
      SessionMessage 0 (said ''five'') \<lparr>currentTime = 0, duration = 0\<rparr>,
      SessionMessage 0 (replied ''six'') \<lparr>currentTime = 0, duration = 0\<rparr>,
      ClickStop, ClickStart granted, SessionOpens 1] initial)) =
     [''one'', ''two'', ''three'', ''four'', ''five'', ''six'',
      ''Neural link established. Welcome to Horizon OS. I am your spatial assistant.'']"
proof -
  have "map entry_text (transcriptionHistory (exec
     [ClickStart granted, SessionOpens 0,
      SessionMessage 0 (said ''one'') \<lparr>currentTime = 0, duration = 0\<rparr>,
      SessionMessage 0 (replied ''two'') \<lparr>currentTime = 0, duration = 0\<rparr>,
      SessionMessage 0 (said ''three'') \<lparr>currentTime = 0, duration = 0\<rparr>,
      SessionMessage 0 (replied ''four'') \<lparr>currentTime = 0, duration = 0\<rparr>,
      SessionMessage 0 (said ''five'') \<lparr>currentTime = 0, duration = 0\<rparr>,
      SessionMessage 0 (replied ''six'') \<lparr>currentTime = 0, duration = 0\<rparr>,
      ClickStop, ClickStart granted, SessionOpens 1] initial)) =
     [''one'', ''two'', ''three'', ''four'', ''five'', ''six'',
      ''Neural link established. Welcome to Horizon OS. I am your spatial assistant.'']"
    by (simp add: run_defs)
  then show ?thesis
    by (simp add: turn_completion_bounds_history welcome_grows_history)
qed


section \<open>Reconnection\<close>

text \<open>What each handler does to the pending reconnections.\<close>

lemma debounced_filter:
  assumes "debounced st"
    and "0 < nextTimer st'"
    and "reconnectTimeoutRef st' = reconnectTimeoutRef st"
    and "pending_reconnects st' = filter P (pending_reconnects st)"
  shows "debounced st'"
proof -
  have "length (pending_reconnects st') \<le> length (pending_reconnects st)"
    unfolding assms(4) by (rule length_filter_le)
  moreover have "length (pending_reconnects st) \<le> 1"
    using assms(1) by (simp add: debounced_def)
  ultimately have "length (pending_reconnects st') \<le> 1"
    by (rule order_trans)
  moreover have "\<forall>t \<in> set (pending_reconnects st').
      reconnectTimeoutRef st' = Some (timer_id t) \<and> 0 < timer_id t"
    using assms(1,3,4) by (simp add: debounced_def)
  ultimately show ?thesis using assms(2) by (simp add: debounced_def)
qed

lemma pending_clearTimeout:
  "pending_reconnects (clearTimeout h st) =
     filter (\<lambda>t. timer_id t \<noteq> h) (pending_reconnects st)"
  by (simp add: pending_reconnects_def clearTimeout_def) (metis (mono_tags, lifting) filter_cong)

lemma pending_clearIfSet:
  "pending_reconnects (clearIfSet r st) =
     filter (\<lambda>t. r = None \<or> r = Some 0 \<or> r \<noteq> Some (timer_id t)) (pending_reconnects st)"
  by (cases r) (auto simp: clearIfSet_def pending_clearTimeout intro: filter_cong)

lemma pending_showError:
  "pending_reconnects (showError msg st) =
     filter (\<lambda>t. errorTimeoutRef st = None \<or> errorTimeoutRef st = Some 0 \<or>
                  errorTimeoutRef st \<noteq> Some (timer_id t))
       (pending_reconnects st)"
proof -
  have "pending_reconnects (showError msg st) =
          pending_reconnects (clearIfSet (errorTimeoutRef st) (st\<lparr>errorMessage := Some msg\<rparr>))"
    by (simp add: showError_def setTimeout_def Let_def pending_reconnects_def)
  moreover have "pending_reconnects (st\<lparr>errorMessage := Some msg\<rparr>) = pending_reconnects st"
    by (simp add: pending_reconnects_def)
  ultimately show ?thesis by (simp add: pending_clearIfSet)
qed

lemma stopSession_timers [simp]:
  "timers (stopSession st) = timers st"
  "nextTimer (stopSession st) = nextTimer st"
  "reconnectTimeoutRef (stopSession st) = reconnectTimeoutRef st"
  "now (stopSession st) = now st"
  by (simp_all add: stopSession_def closeSession_def Let_def split: option.split)

lemma pending_stopSession [simp]: "pending_reconnects (stopSession st) = pending_reconnects st"
  by (simp add: pending_reconnects_def)

lemma render_fields [simp]:
  "timers (render st) = timers st"
  "nextTimer (render st) = nextTimer st"
  "reconnectTimeoutRef (render st) = reconnectTimeoutRef st"
  "errorMessage (render st) = errorMessage st"
  "voiceState (render st) = voiceState st"
  "sessions (render st) = sessions st"
  "sessionRef (render st) = sessionRef st"
  "nextContext (render st) = nextContext st"
  by (simp_all add: render_def)

lemma pending_render [simp]: "pending_reconnects (render st) = pending_reconnects st"
  by (simp add: pending_reconnects_def)

lemma debounced_render [simp]: "debounced (render st) = debounced st"
  by (simp add: debounced_def)

lemma debounced_stopSession [simp]: "debounced (stopSession st) = debounced st"
  by (simp add: debounced_def)

lemma showError_fields [simp]:
  "reconnectTimeoutRef (showError msg st) = reconnectTimeoutRef st"
  "nextTimer (showError msg st) = Suc (nextTimer st)"
  "now (showError msg st) = now st"
  "errorMessage (showError msg st) = Some msg"
  "voiceState (showError msg st) = voiceState st"
  "sessions (showError msg st) = sessions st"
  "sessionRef (showError msg st) = sessionRef st"
  by (simp_all add: showError_def setTimeout_def clearIfSet_def clearTimeout_def Let_def
      split: option.split)

lemma debounced_showError: "debounced st \<Longrightarrow> debounced (showError msg st)"
  by (rule debounced_filter [where st = st]) (simp_all add: pending_showError)

lemma clearIfSet_fields [simp]:
  "reconnectTimeoutRef (clearIfSet r st) = reconnectTimeoutRef st"
  "nextTimer (clearIfSet r st) = nextTimer st"
  "now (clearIfSet r st) = now st"
  by (simp_all add: clearIfSet_def clearTimeout_def split: option.split)

lemma pending_cleared:
  assumes "debounced st"
  shows "pending_reconnects (clearIfSet (reconnectTimeoutRef st) st) = []"
proof -
  have "\<forall>t \<in> set (pending_reconnects st).
          \<not> (reconnectTimeoutRef st = None \<or> reconnectTimeoutRef st = Some 0 \<or>
             reconnectTimeoutRef st \<noteq> Some (timer_id t))"
    using assms by (auto simp: debounced_def)
  then show ?thesis
    unfolding pending_clearIfSet filter_empty_conv .
qed

text \<open>\<^verbatim>\<open>handleAutoReconnect\<close> cancels what is pending and then schedules one reconnection,
  five seconds ahead, if the closure it was created in allows it.\<close>

lemma pending_handleAutoReconnect:
  assumes "debounced st"
  shows "pending_reconnects (handleAutoReconnect cap st) =
           (if cap_hasInteracted cap \<and> \<not> cap_needsApiKey cap
            then [\<lparr>timer_id = nextTimer st, timer_callback = Reconnect cap,
                   timer_due = now st + 5000\<rparr>]
            else [])"
proof -
  let ?st2 = "stopSession (clearIfSet (reconnectTimeoutRef st) st)"
  have empty: "pending_reconnects ?st2 = []"
    using pending_cleared [OF assms] by simp
  have now: "now ?st2 = now st"
    by simp
  show ?thesis
  proof (cases "cap_hasInteracted cap \<and> \<not> cap_needsApiKey cap")
    case True
    then have "pending_reconnects (handleAutoReconnect cap st) =
        filter (\<lambda>t. is_reconnect (timer_callback t))
          (timers ?st2 @ [\<lparr>timer_id = nextTimer ?st2, timer_callback = Reconnect cap,
                           timer_due = now ?st2 + 5000\<rparr>])"
      by (simp add: handleAutoReconnect_def setTimeout_def Let_def pending_reconnects_def)
    also have "\<dots> = pending_reconnects ?st2 @
        [\<lparr>timer_id = nextTimer st, timer_callback = Reconnect cap, timer_due = now st + 5000\<rparr>]"
      by (simp add: pending_reconnects_def now)
    finally show ?thesis using True empty by simp
  next
    case False
    then have "handleAutoReconnect cap st = ?st2"
      by (auto simp: handleAutoReconnect_def Let_def)
    with False empty show ?thesis by auto
  qed
qed

lemma handleAutoReconnect_fields:
  "reconnectTimeoutRef (handleAutoReconnect cap st) =
     (if cap_hasInteracted cap \<and> \<not> cap_needsApiKey cap then Some (nextTimer st)
      else reconnectTimeoutRef st)"
  "nextTimer (handleAutoReconnect cap st) =
     (if cap_hasInteracted cap \<and> \<not> cap_needsApiKey cap then Suc (nextTimer st)
      else nextTimer st)"
  by (simp_all add: handleAutoReconnect_def setTimeout_def Let_def)

lemma debounced_handleAutoReconnect:
  "debounced st \<Longrightarrow> debounced (handleAutoReconnect cap st)"
  unfolding debounced_def [of "handleAutoReconnect cap st"]
  by (simp add: pending_handleAutoReconnect handleAutoReconnect_fields) (simp add: debounced_def)

lemma debounced_update [simp]:
  "debounced (st\<lparr>voiceState := a\<rparr>) = debounced st"
  "debounced (st\<lparr>transcriptionHistory := b\<rparr>) = debounced st"
  "debounced (st\<lparr>currentUserText := c\<rparr>) = debounced st"
  "debounced (st\<lparr>currentAssistantText := c\<rparr>) = debounced st"
  "debounced (st\<lparr>errorMessage := d\<rparr>) = debounced st"
  "debounced (st\<lparr>hasInteracted := e\<rparr>) = debounced st"
  "debounced (st\<lparr>needsApiKey := e\<rparr>) = debounced st"
  "debounced (st\<lparr>sessionRef := f\<rparr>) = debounced st"
  "debounced (st\<lparr>audioContextsRef := f\<rparr>) = debounced st"
  "debounced (st\<lparr>nextStartTimeRef := g\<rparr>) = debounced st"
  "debounced (st\<lparr>sourcesRef := h\<rparr>) = debounced st"
  "debounced (st\<lparr>userTextRef := c\<rparr>) = debounced st"
  "debounced (st\<lparr>assistantTextRef := c\<rparr>) = debounced st"
  "debounced (st\<lparr>now := i\<rparr>) = debounced st"
  "debounced (st\<lparr>sessions := j\<rparr>) = debounced st"
  "debounced (st\<lparr>nextSession := i\<rparr>) = debounced st"
  "debounced (st\<lparr>nextContext := i\<rparr>) = debounced st"
  "debounced (st\<lparr>nextNode := i\<rparr>) = debounced st"
  "debounced (st\<lparr>started := k\<rparr>) = debounced st"
  "debounced (st\<lparr>stopped := h\<rparr>) = debounced st"
  by (simp_all add: debounced_def pending_reconnects_def)

lemma debounced_startSession:
  "debounced st \<Longrightarrow> debounced (startSession cap env st)"
  by (simp add: startSession_def Let_def debounced_showError debounced_handleAutoReconnect)

lemma debounced_handleKeySelection:
  "debounced st \<Longrightarrow> debounced (handleKeySelection k env st)"
  by (simp add: handleKeySelection_def debounced_showError debounced_startSession)

lemma debounced_onopen [simp]: "debounced (onopen st) = debounced st"
  by (simp add: onopen_def)

lemma debounced_onmessage [simp]: "debounced (after (onmessage m p st)) = debounced st"
  by (simp add: onmessage_def onmessage_transcription_def onmessage_turnComplete_def
      onmessage_audio_def onmessage_interrupted_def Let_def split: option.split)

lemma debounced_onended [simp]: "debounced (onended n st) = debounced st"
  by (simp add: onended_def Let_def)

lemma debounced_setLink [simp]: "debounced (setLink sid l st) = debounced st"
  by (simp add: setLink_def)

lemma debounced_onerror: "debounced st \<Longrightarrow> debounced (onerror cap msg st)"
  by (simp add: onerror_def debounced_showError debounced_handleAutoReconnect)

lemma debounced_onclose: "debounced st \<Longrightarrow> debounced (onclose cap c st)"
  by (simp add: onclose_def debounced_showError debounced_handleAutoReconnect)

lemma debounced_clearTimeout: "debounced st \<Longrightarrow> debounced (clearTimeout h st)"
proof (rule debounced_filter [where st = st])
  show "pending_reconnects (clearTimeout h st) =
          filter (\<lambda>t. timer_id t \<noteq> h) (pending_reconnects st)"
    by (rule pending_clearTimeout)
qed (simp_all add: debounced_def clearTimeout_def)

lemma debounced_dispatch: "debounced st \<Longrightarrow> debounced (dispatch e st)"
  by (cases e)
     (simp_all add: debounced_startSession debounced_handleKeySelection debounced_onerror
        debounced_onclose debounced_clearTimeout split: option.split timer_callback.split)

lemma debounced_handle: "debounced st \<Longrightarrow> debounced (handle e st)"
  by (simp add: handle_def debounced_dispatch)

lemma debounced_exec: "debounced st \<Longrightarrow> debounced (exec es st)"
  by (induction es arbitrary: st) (simp_all add: debounced_handle)

lemma debounced_initial: "debounced initial"
  by (simp add: debounced_def pending_reconnects_def initial_def)

lemma debounced_reachable: "debounced (exec es initial)"
  by (rule debounced_exec [OF debounced_initial])

lemma pending_onclose:
  assumes "debounced st"
  shows "pending_reconnects (onclose cap False st) =
           (if cap_hasInteracted cap \<and> \<not> cap_needsApiKey cap
            then [\<lparr>timer_id = Suc (nextTimer st), timer_callback = Reconnect cap,
                   timer_due = now st + 5000\<rparr>]
            else [])"
  using assms by (simp add: onclose_def pending_handleAutoReconnect debounced_showError)

lemma nextTimer_onclose: "nextTimer st < nextTimer (onclose cap False st)"
  by (simp add: onclose_def handleAutoReconnect_fields)

lemma now_onclose: "now (onclose cap c st) = now st"
  by (simp add: onclose_def handleAutoReconnect_def setTimeout_def Let_def)

text \<open>
  The part of the debounce that the code keeps. In every state the mounted component can
  reach, at most one reconnection is pending. \<^verbatim>\<open>handleAutoReconnect\<close> cancels the pending
  one before it schedules the next: after it, exactly the one it scheduled is pending (or
  none, when its closure does not allow a reconnection). Hence after two abnormal closes
  in a row only the reconnection scheduled by the second is pending and can fire; its
  handle is newer than every handle given out before the first close.
\<close>

lemma reconnect_is_debounced:
  "length (pending_reconnects (exec es initial)) \<le> 1 \<and>
   pending_reconnects (handleAutoReconnect cap (exec es initial)) =
     (if cap_hasInteracted cap \<and> \<not> cap_needsApiKey cap
      then [\<lparr>timer_id = nextTimer (exec es initial), timer_callback = Reconnect cap,
             timer_due = now (exec es initial) + 5000\<rparr>]
      else []) \<and>
   pending_reconnects (onclose cap' False (onclose cap False (exec es initial))) =
     (if cap_hasInteracted cap' \<and> \<not> cap_needsApiKey cap'
      then [\<lparr>timer_id = Suc (nextTimer (onclose cap False (exec es initial))),
             timer_callback = Reconnect cap',
             timer_due = now (exec es initial) + 5000\<rparr>]
      else []) \<and>
   nextTimer (exec es initial) < nextTimer (onclose cap False (exec es initial))"
proof -
  have reach: "debounced (exec es initial)"
    by (rule debounced_reachable)
  then have "debounced (onclose cap False (exec es initial))"
    by (rule debounced_onclose)
  then have "pending_reconnects (onclose cap' False (onclose cap False (exec es initial))) =
     (if cap_hasInteracted cap' \<and> \<not> cap_needsApiKey cap'
      then [\<lparr>timer_id = Suc (nextTimer (onclose cap False (exec es initial))),
             timer_callback = Reconnect cap',
             timer_due = now (exec es initial) + 5000\<rparr>]
      else [])"
    by (simp only: pending_onclose now_onclose)
  moreover have "length (pending_reconnects (exec es initial)) \<le> 1"
    using reach by (simp add: debounced_def)
  ultimately show ?thesis
    using pending_handleAutoReconnect [OF reach] nextTimer_onclose by simp
qed

text \<open>
  C2. A pending reconnection is cancelled where \<^verbatim>\<open>handleAutoReconnect\<close> stops the session
  (line 239) and where the unmount cleanup does (lines 248-249), but not where the user
  stops or starts it: \<^verbatim>\<open>stopSession\<close> and \<^verbatim>\<open>startSession\<close> leave the timer alone. A second
  session is closed abnormally, which schedules the reconnection with handle 2; the user
  starts a third session by hand, it opens, and the user stops it by hand; the
  reconnection is pending throughout. Five seconds after the close the timer fires and
  the component, which the user has stopped, connects again by itself.
\<close>

theorem manual_start_and_stop_keep_pending_reconnect:
  "map timer_id (pending_reconnects (exec
      [ClickStart granted, SessionOpens 0, ClickStop, ClickStart granted, SessionOpens 1,
       SessionCloses 1 False] initial)) = [2] \<and>
   map timer_id (pending_reconnects (exec
      [ClickStart granted, SessionOpens 0, ClickStop, ClickStart granted, SessionOpens 1,
       SessionCloses 1 False, ClickStart granted] initial)) = [2] \<and>
   map timer_id (pending_reconnects (exec
      [ClickStart granted, SessionOpens 0, ClickStop, ClickStart granted, SessionOpens 1,
       SessionCloses 1 False, ClickStart granted, SessionOpens 2, ClickStop] initial)) = [2] \<and>
   voiceState (exec
      [ClickStart granted, SessionOpens 0, ClickStop, ClickStart granted, SessionOpens 1,
       SessionCloses 1 False, ClickStart granted, SessionOpens 2, ClickStop] initial) =
     \<lparr>isListening = False, isSpeaking = False, isConnected = False, isConnecting = False\<rparr> \<and>
   voiceState (exec
      [ClickStart granted, SessionOpens 0, ClickStop, ClickStart granted, SessionOpens 1,
       SessionCloses 1 False, ClickStart granted, SessionOpens 2, ClickStop, Tick 5000,
       TimerFires 2 granted] initial) =
     \<lparr>isListening = False, isSpeaking = False, isConnected = False, isConnecting = True\<rparr> \<and>
   map session_link (sessions (exec
      [ClickStart granted, SessionOpens 0, ClickStop, ClickStart granted, SessionOpens 1,
       SessionCloses 1 False, ClickStart granted, SessionOpens 2, ClickStop, Tick 5000,
       TimerFires 2 granted] initial)) = [Closing, Closed, Closing, Pending] \<and>
   sessionRef (exec
      [ClickStart granted, SessionOpens 0, ClickStop, ClickStart granted, SessionOpens 1,
       SessionCloses 1 False, ClickStart granted, SessionOpens 2, ClickStop, Tick 5000,
       TimerFires 2 granted] initial) = Some 3"
  by (simp add: run_defs)


lemma pending_update [simp]:
  "pending_reconnects (st\<lparr>voiceState := a\<rparr>) = pending_reconnects st"
  "pending_reconnects (st\<lparr>hasInteracted := e\<rparr>) = pending_reconnects st"
  "pending_reconnects (st\<lparr>needsApiKey := e\<rparr>) = pending_reconnects st"
  "pending_reconnects (st\<lparr>sessionRef := f\<rparr>) = pending_reconnects st"
  "pending_reconnects (st\<lparr>audioContextsRef := f\<rparr>) = pending_reconnects st"
  "pending_reconnects (st\<lparr>sessions := j\<rparr>) = pending_reconnects st"
  "pending_reconnects (st\<lparr>nextSession := i\<rparr>) = pending_reconnects st"
  "pending_reconnects (st\<lparr>nextContext := i\<rparr>) = pending_reconnects st"
  by (simp_all add: pending_reconnects_def)

text \<open>
  What \<^verbatim>\<open>onerror\<close> does: a message that names an invalid key raises \<^verbatim>\<open>needsApiKey\<close>, stops
  the session and schedules nothing; any other message shows the transient error and
  leaves exactly one reconnection pending, five seconds ahead, if \<^verbatim>\<open>hasInteracted\<close> and
  not \<^verbatim>\<open>needsApiKey\<close> held in the render that created the session's callbacks, and none
  otherwise.
\<close>

lemma onerror_invalid_key:
  assumes "string_includes msg ''Requested entity was not found'' \<or>
           string_includes msg ''API_KEY_INVALID''"
  shows "needsApiKey (onerror cap msg st) \<and>
         errorMessage (onerror cap msg st) =
           Some ''Link rejected. Key might be invalid or from unpaid project.'' \<and>
         sessionRef (onerror cap msg st) = None \<and>
         set (pending_reconnects (onerror cap msg st)) \<subseteq> set (pending_reconnects st) \<and>
         reconnectTimeoutRef (onerror cap msg st) = reconnectTimeoutRef st"
proof -
  have "sessionRef (stopSession s) = None \<and> needsApiKey (stopSession s) = needsApiKey s \<and>
        errorMessage (stopSession s) = errorMessage s" for s
    by (simp add: stopSession_def closeSession_def Let_def split: option.split)
  then show ?thesis
    using assms by (auto simp: onerror_def pending_showError)
qed

lemma onerror_transient:
  assumes "\<not> string_includes msg ''Requested entity was not found''"
    and "\<not> string_includes msg ''API_KEY_INVALID''"
    and "debounced st"
  shows "pending_reconnects (onerror cap msg st) =
           (if cap_hasInteracted cap \<and> \<not> cap_needsApiKey cap
            then [\<lparr>timer_id = Suc (nextTimer st), timer_callback = Reconnect cap,
                   timer_due = now st + 5000\<rparr>]
            else [])"
  using assms
  by (simp add: onerror_def pending_handleAutoReconnect debounced_showError)

text \<open>
  C4. The session callbacks call the \<^verbatim>\<open>handleAutoReconnect\<close> of the render that created
  \<^verbatim>\<open>startSession\<close>. For the first session that is the first render, where
  \<^verbatim>\<open>hasInteracted\<close> is false: the user starts a session, it opens, and it fails with an
  error that is not a key error. The transient message is shown, the user has initiated
  a session and no reauthorization is needed, and yet no reconnection is scheduled. The
  same happens when the first session is closed abnormally.
\<close>

theorem first_session_error_schedules_no_reconnect:
  "hasInteracted (exec [ClickStart granted, SessionOpens 0,
      SessionError 0 ''network down''] initial) \<and>
   \<not> needsApiKey (exec [ClickStart granted, SessionOpens 0,
      SessionError 0 ''network down''] initial) \<and>
   errorMessage (exec [ClickStart granted, SessionOpens 0,
      SessionError 0 ''network down''] initial) =
     Some ''Neural bridge sync failure. Attempting recalibration...'' \<and>
   pending_reconnects (exec [ClickStart granted, SessionOpens 0,
      SessionError 0 ''network down''] initial) = [] \<and>
   pending_reconnects (exec [ClickStart granted, SessionOpens 0,
      SessionCloses 0 False] initial) = []"
  by (simp add: run_defs)

section \<open>Connection state\<close>

text \<open>
  C8. The guard of \<^verbatim>\<open>startSession\<close> (line 80) reads the \<^verbatim>\<open>voiceState\<close> of the render
  that created the function. A second session is closed abnormally, which schedules a
  reconnection; within the five seconds the user starts a third session by hand and it
  opens. When the timer fires, the \<^verbatim>\<open>startSession\<close> it calls still sees neither
  \<^verbatim>\<open>isConnected\<close> nor \<^verbatim>\<open>isConnecting\<close>, passes the guard and sets \<^verbatim>\<open>isConnecting\<close>:
  \<^verbatim>\<open>isConnected\<close> and \<^verbatim>\<open>isConnecting\<close> are true together.
\<close>

theorem reconnect_timer_passes_stale_guard:
  "voiceState (exec
      [ClickStart granted, SessionOpens 0, ClickStop, ClickStart granted, SessionOpens 1,
       SessionCloses 1 False, ClickStart granted, SessionOpens 2, Tick 5000,
       TimerFires 2 granted] initial) =
     \<lparr>isListening = True, isSpeaking = False, isConnected = True, isConnecting = True\<rparr>"
  by (simp add: run_defs)

text \<open>
  C9. When \<^verbatim>\<open>startSession\<close> gets as far as asking for the microphone and the permission
  is denied, the microphone message is shown, \<^verbatim>\<open>isConnecting\<close> is false again, no
  session is created, and no reconnection is scheduled: the pending reconnections are
  among those pending before, and \<^verbatim>\<open>reconnectTimeoutRef\<close> is untouched.
\<close>

theorem microphone_denial_aborts_without_reconnect:
  assumes "requests_microphone cap env" and "\<not> micGranted env"
  shows "errorMessage (startSession cap env st) =
           Some ''Microphone access is restricted. Enable permissions for link.'' \<and>
         \<not> isConnecting (voiceState (startSession cap env st)) \<and>
         sessions (startSession cap env st) = sessions st \<and>
         sessionRef (startSession cap env st) = sessionRef st \<and>
         set (pending_reconnects (startSession cap env st)) \<subseteq> set (pending_reconnects st) \<and>
         reconnectTimeoutRef (startSession cap env st) = reconnectTimeoutRef st"
  using assms
  by (auto simp: startSession_def requests_microphone_def Let_def pending_showError)

theorem microphone_denial_aborts_without_reconnect_witness:
  "errorMessage (startSession (memo initial) (granted\<lparr>micGranted := False\<rparr>) initial) =
     Some ''Microphone access is restricted. Enable permissions for link.'' \<and>
   \<not> isConnecting (voiceState
       (startSession (memo initial) (granted\<lparr>micGranted := False\<rparr>) initial)) \<and>
   pending_reconnects (startSession (memo initial) (granted\<lparr>micGranted := False\<rparr>) initial) = []"
proof -
  have "requests_microphone (memo initial) (granted\<lparr>micGranted := False\<rparr>)"
    and "\<not> micGranted (granted\<lparr>micGranted := False\<rparr>)"
    by (simp_all add: requests_microphone_def initial_def granted_def)
  from microphone_denial_aborts_without_reconnect [OF this, of initial]
  show ?thesis by (simp add: pending_reconnects_def initial_def)
qed

text \<open>
  C10. \<^verbatim>\<open>stopSession\<close> leaves the playback cursor as it is, and so does every event that
  is not a server message (a stop, a start, the opening of a session, a timer, an error, a
  close, the end of a node); a message without the interruption flag leaves it or moves
  it to the end of the segment it enqueues. So after a stop and a new session (any events
  \<open>es\<close> without a message) the first segment starts at the maximum of the new device
  clock and the cursor of the old session.
\<close>

theorem stop_keeps_playback_cursor:
  assumes "\<forall>e \<in> set es. \<not> is_message e"
  shows "nextStartTimeRef (stopSession st) = nextStartTimeRef st \<and>
         nextStartTimeRef (exec es st) = nextStartTimeRef st \<and>
         (\<not> interrupted m \<longrightarrow>
            nextStartTimeRef (after (onmessage m p st)) =
              (if audioData m = None \<or> audioData m = Some [] then nextStartTimeRef st
               else max (currentTime p) (nextStartTimeRef st) + duration p)) \<and>
         started (onmessage_audio p (exec es st)) =
           started (exec es st) @
             [(nextNode (exec es st), max (currentTime p) (nextStartTimeRef st))]"
proof -
  have "nextStartTimeRef (after (onmessage m p st)) =
          (if audioData m = None \<or> audioData m = Some [] then nextStartTimeRef st
           else max (currentTime p) (nextStartTimeRef st) + duration p)"
    if "\<not> interrupted m"
    using that
    by (auto simp: onmessage_def audioData_def audio_cursor Let_def max.commute
        split: option.split modelTurn.split)
  then show ?thesis
    using assms by (simp add: cursor_exec audio_started max.commute)
qed

text \<open>A first session plays a segment of two seconds from device time 1: the cursor is
  3. The user stops and starts again; the new device clock reads 1/2 when the first
  segment of the new session arrives, and the segment is started at 3.\<close>

theorem stop_keeps_playback_cursor_witness:
  "started (onmessage_audio \<lparr>currentTime = 1/2, duration = 1\<rparr>
     (exec [ClickStop, ClickStart granted, SessionOpens 1]
        (exec [ClickStart granted, SessionOpens 0,
               SessionMessage 0 audio \<lparr>currentTime = 1, duration = 2\<rparr>] initial))) =
     [(0, 1), (1, 3)]"
proof -
  let ?st = "exec [ClickStart granted, SessionOpens 0,
                   SessionMessage 0 audio \<lparr>currentTime = 1, duration = 2\<rparr>] initial"
  let ?es = "[ClickStop, ClickStart granted, SessionOpens 1]"
  have "\<forall>e \<in> set ?es. \<not> is_message e" by simp
  from stop_keeps_playback_cursor
         [OF this, where st = ?st and p = "\<lparr>currentTime = 1/2, duration = 1\<rparr>"]
  have "started (onmessage_audio \<lparr>currentTime = 1/2, duration = 1\<rparr> (exec ?es ?st)) =
          started (exec ?es ?st) @ [(nextNode (exec ?es ?st), max (1/2) (nextStartTimeRef ?st))]"
    by simp
  moreover have "nextStartTimeRef ?st = 3"
    by (simp add: run_defs)
  moreover have "started (exec ?es ?st) = [(0, 1)] \<and> nextNode (exec ?es ?st) = 1"
    by (simp add: run_defs)
  ultimately show ?thesis by simp
qed


section \<open>Codec round trip\<close>

lemma index_of_nth:
  "distinct xs \<Longrightarrow> i < length xs \<Longrightarrow> index_of (xs ! i) xs = Some i"
proof (induction xs arbitrary: i)
  case Nil
  then show ?case by simp
next
  case (Cons y ys)
  show ?case
  proof (cases i)
    case 0
    then show ?thesis by simp
  next
    case (Suc j)
    with Cons.prems have "ys ! j \<in> set ys" "y \<notin> set ys" by auto
    then have "ys ! j \<noteq> y" by auto
    with Suc Cons show ?thesis by auto
  qed
qed

lemma alphabet_distinct: "distinct base64_alphabet"
  by (simp add: base64_alphabet_def)

lemma alphabet_length: "length base64_alphabet = 64"
  by (simp add: base64_alphabet_def)

lemma alphabet_no_pad: "CHR ''='' \<notin> set base64_alphabet"
  by (simp add: base64_alphabet_def)

lemma index_char [simp]: "i < 64 \<Longrightarrow> base64_index (base64_char i) = Some i"
  by (simp add: base64_index_def base64_char_def index_of_nth alphabet_distinct alphabet_length)

lemma char_not_pad [simp]: "i < 64 \<Longrightarrow> base64_char i \<noteq> CHR ''=''"
  using alphabet_no_pad by (metis alphabet_length base64_char_def nth_mem)

lemma sextets:
  fixes a b c :: nat
  assumes "a < 256" "b < 256" "c < 256"
  shows "a div 4 < 64" "(a mod 4) * 16 + b div 16 < 64" "(b mod 16) * 4 + c div 64 < 64"
    "c mod 64 < 64" "(a mod 4) * 16 < 64" "(b mod 16) * 4 < 64"
    "(a div 4) * 4 + ((a mod 4) * 16 + b div 16) div 16 = a"
    "(((a mod 4) * 16 + b div 16) mod 16) * 16 + ((b mod 16) * 4 + c div 64) div 4 = b"
    "(((b mod 16) * 4 + c div 64) mod 4) * 64 + c mod 64 = c"
    "(a div 4) * 4 + ((a mod 4) * 16) div 16 = a"
    "(((a mod 4) * 16 + b div 16) mod 16) * 16 + ((b mod 16) * 4) div 4 = b"
proof -
  have "b div 16 < 16" using assms(2) by simp
  then have "b div 16 mod 16 = b div 16" by simp
  with assms show "a div 4 < 64" "(a mod 4) * 16 + b div 16 < 64"
    "(b mod 16) * 4 + c div 64 < 64"
    "c mod 64 < 64" "(a mod 4) * 16 < 64" "(b mod 16) * 4 < 64"
    "(a div 4) * 4 + ((a mod 4) * 16 + b div 16) div 16 = a"
    "(((a mod 4) * 16 + b div 16) mod 16) * 16 + ((b mod 16) * 4 + c div 64) div 4 = b"
    "(((b mod 16) * 4 + c div 64) mod 4) * 64 + c mod 64 = c"
    "(a div 4) * 4 + ((a mod 4) * 16) div 16 = a"
    "(((a mod 4) * 16 + b div 16) mod 16) * 16 + ((b mod 16) * 4) div 4 = b"
    by simp_all
qed

lemma base64_roundtrip:
  "\<forall>b \<in> set bs. b < 256 \<Longrightarrow> decode_base64 (encode_base64 bs) = Some bs"
proof (induction bs rule: encode_base64.induct)
  case (1 a b c bs)
  then have "a < 256" "b < 256" "c < 256" and "decode_base64 (encode_base64 bs) = Some bs"
    by simp_all
  then show ?case by (simp add: sextets)
next
  case (2 a b)
  then have "a < 256" "b < 256" by simp_all
  then show ?case using sextets [of a b 0] by simp
next
  case (3 a)
  then have "a < 256" by simp
  then show ?case using sextets [of a 0 0] by simp
next
  case 4
  then show ?case by simp
qed

lemma le_bytes_roundtrip: "of_le_bytes (concat (map le_bytes ws)) = ws"
  by (induction ws) (simp_all add: le_bytes_def)

lemma le_bytes_bytes: "\<forall>b \<in> set (concat (map le_bytes ws)). b < 256"
proof -
  have "unat w div 256 < 256" for w :: "16 word"
  proof -
    have "unat w < 2 ^ 16" using unsigned_less [of w] by simp
    then show ?thesis by simp
  qed
  then show ?thesis by (auto simp: le_bytes_def)
qed

lemma transport_lossless:
  "decodeOutputPayload toFloat (blob_data (encodeInputFrame toInt16 samples)) =
     Some (map (toFloat \<circ> toInt16) samples)"
proof -
  have "decode_base64 (encode_base64 (concat (map le_bytes (map toInt16 samples)))) =
          Some (concat (map le_bytes (map toInt16 samples)))"
    by (rule base64_roundtrip [OF le_bytes_bytes])
  then show ?thesis
    by (simp add: decodeOutputPayload_def encodeInputFrame_def le_bytes_roundtrip
        flip: map_map)
qed

lemma pcm16_roundtrip:
  "pcm16_to_float (float_to_pcm16 x) =
     real_of_int (max (- 32768) (min 32767 \<lfloor>x * 32768\<rfloor>)) / 32768"
proof -
  define v where "v = max (- 32768) (min 32767 \<lfloor>x * 32768\<rfloor>)"
  have "- 32768 \<le> v" "v \<le> 32767" by (simp_all add: v_def)
  then have "sint (word_of_int v :: 16 word) = v"
    by (simp add: int_word_sint)
  then show ?thesis
    by (simp add: pcm16_to_float_def float_to_pcm16_def v_def)
qed

lemma pcm16_tolerance:
  assumes "- 1 \<le> x" "x \<le> 1"
  shows "\<bar>pcm16_to_float (float_to_pcm16 x) - x\<bar> \<le> 1 / 32768"
proof -
  define f where "f = \<lfloor>x * 32768\<rfloor>"
  define v where "v = max (- 32768) (min 32767 f)"
  have eq: "pcm16_to_float (float_to_pcm16 x) = real_of_int v / 32768"
    by (simp only: pcm16_roundtrip v_def f_def)
  have lo: "- 32768 \<le> f" using assms(1) by (simp add: f_def le_floor_iff)
  have hi: "f \<le> 32768" using assms(2) by (simp add: f_def floor_le_iff)
  have fl: "real_of_int f \<le> x * 32768" "x * 32768 < real_of_int f + 1"
    unfolding f_def by linarith+
  have "\<bar>real_of_int v / 32768 - x\<bar> \<le> 1 / 32768"
  proof (cases "f = 32768")
    case True
    then have "real_of_int v = 32767" by (simp add: v_def)
    moreover from True fl assms have "x = 1" by simp
    ultimately show ?thesis by simp
  next
    case False
    with lo hi have "v = f" unfolding v_def by linarith
    with fl have "real_of_int v \<le> x * 32768" "x * 32768 < real_of_int v + 1"
      by simp_all
    then have "real_of_int v / 32768 \<le> x" "x < real_of_int v / 32768 + 1 / 32768"
      by (simp_all add: field_simps)
    then show ?thesis by linarith
  qed
  then show ?thesis by (simp only: eq)
qed

text \<open>
  C7. For every sequence of samples in \<open>[-1, 1]\<close> and every sample conversion that is
  within a tolerance \<open>tol\<close> on one sample of that range: decoding the encoded frame gives
  a buffer of the same length whose sample \<open>i\<close> is within \<open>tol\<close> of sample \<open>i\<close> of the
  input. The transport itself (bytes and base64) loses nothing and keeps the order.
\<close>

theorem codec_round_trip:
  assumes "\<forall>x \<in> {- 1 .. 1}. \<bar>toFloat (toInt16 x) - x\<bar> \<le> tol"
    and "set samples \<subseteq> {- 1 .. 1}"
  shows "\<exists>out. decodeOutputPayload toFloat (blob_data (encodeInputFrame toInt16 samples)) =
                 Some out \<and>
           length out = length samples \<and>
           (\<forall>i < length samples. \<bar>out ! i - samples ! i\<bar> \<le> tol)"
proof -
  have "\<bar>map (toFloat \<circ> toInt16) samples ! i - samples ! i\<bar> \<le> tol"
    if "i < length samples" for i
  proof -
    from that have "samples ! i \<in> set samples" by (rule nth_mem)
    with assms(2) have "samples ! i \<in> {- 1 .. 1}" by (rule subsetD)
    with assms(1) that show ?thesis by simp
  qed
  then show ?thesis by (simp add: transport_lossless)
qed

text \<open>The conversion with scale \<open>2\<^sup>1\<^sup>5\<close> is within \<open>2\<^sup>-\<^sup>1\<^sup>5\<close>; it returns the samples
  1/2 and -1 exactly and the sample 1 as 32767/32768.\<close>

theorem codec_round_trip_witness:
  "decodeOutputPayload pcm16_to_float
     (blob_data (encodeInputFrame float_to_pcm16 [1/2, - 1, 1])) =
     Some [1/2, - 1, 32767/32768]"
proof -
  have "\<forall>x \<in> {- 1 .. 1}. \<bar>pcm16_to_float (float_to_pcm16 x) - x\<bar> \<le> 1 / 32768"
    using pcm16_tolerance by auto
  moreover have "set [1/2, - 1, 1 :: real] \<subseteq> {- 1 .. 1}" by simp
  ultimately obtain out where
    "decodeOutputPayload pcm16_to_float
       (blob_data (encodeInputFrame float_to_pcm16 [1/2, - 1, 1])) = Some out"
    using codec_round_trip [of pcm16_to_float float_to_pcm16 "1 / 32768" "[1/2, - 1, 1]"]
    by blast
  then show ?thesis by (simp add: transport_lossless pcm16_roundtrip)
qed


section \<open>Scenarios of the specification\<close>

text \<open>The four scenarios of section 8 of the specification, run on the model.\<close>

lemma scenario_welcome:
  "map (\<lambda>e. (entry_role e, entry_text e))
     (transcriptionHistory (exec [ClickStart granted, SessionOpens 0] initial)) =
   [(Assistant,
     ''Neural link established. Welcome to Horizon OS. I am your spatial assistant.'')]"
  by (simp add: run_defs)

lemma scenario_hello:
  "last (map (\<lambda>e. (entry_role e, entry_text e))
     (transcriptionHistory (exec
        [ClickStart granted, SessionOpens 0,
         SessionMessage 0 (said ''hel'') \<lparr>currentTime = 0, duration = 0\<rparr>,
         SessionMessage 0 (said ''lo'') \<lparr>currentTime = 0, duration = 0\<rparr>,
         SessionMessage 0 ((said [])\<lparr>inputTranscription := None, turnComplete := True\<rparr>)
           \<lparr>currentTime = 0, duration = 0\<rparr>] initial))) = (User, ''hello'') \<and>
   currentUserText (exec
        [ClickStart granted, SessionOpens 0,
         SessionMessage 0 (said ''hel'') \<lparr>currentTime = 0, duration = 0\<rparr>,
         SessionMessage 0 (said ''lo'') \<lparr>currentTime = 0, duration = 0\<rparr>,
         SessionMessage 0 ((said [])\<lparr>inputTranscription := None, turnComplete := True\<rparr>)
           \<lparr>currentTime = 0, duration = 0\<rparr>] initial) = []"
  by (simp add: run_defs)

lemma scenario_two_payloads:
  "map snd (started (exec
     [ClickStart granted, SessionOpens 0,
      SessionMessage 0 audio \<lparr>currentTime = 2, duration = 1/2\<rparr>,
      SessionMessage 0 audio \<lparr>currentTime = 2, duration = 1/2\<rparr>] initial)) = [2, 2 + 1/2]"
  by (simp add: run_defs)

lemma scenario_interrupted:
  "stopped (exec
     [ClickStart granted, SessionOpens 0,
      SessionMessage 0 audio \<lparr>currentTime = 2, duration = 1/2\<rparr>,
      SessionMessage 0 audio \<lparr>currentTime = 2, duration = 1/2\<rparr>,
      SessionMessage 0 ((said [])\<lparr>inputTranscription := None, interrupted := True\<rparr>)
        \<lparr>currentTime = 0, duration = 0\<rparr>,
      SessionMessage 0 audio \<lparr>currentTime = 9/4, duration = 1/2\<rparr>] initial) = [0, 1] \<and>
   map snd (started (exec
     [ClickStart granted, SessionOpens 0,
      SessionMessage 0 audio \<lparr>currentTime = 2, duration = 1/2\<rparr>,
      SessionMessage 0 audio \<lparr>currentTime = 2, duration = 1/2\<rparr>,
      SessionMessage 0 ((said [])\<lparr>inputTranscription := None, interrupted := True\<rparr>)
        \<lparr>currentTime = 0, duration = 0\<rparr>,
      SessionMessage 0 audio \<lparr>currentTime = 9/4, duration = 1/2\<rparr>] initial)) =
     [2, 2 + 1/2, 9/4]"
  by (simp add: run_defs)

end
